theory Spec2Isabelle
  imports Complex_Main "HOL-Library.AList"
begin

section \<open>Core data: errors, coordinates, map values\<close>

text \<open>
  Exceptions of the Python source that the model makes explicit as values.
\<close>

datatype py_error = KeyError | IndexError | ZeroDivisionError | ValueError | AttributeError

text \<open>
  \<^verbatim>\<open>Coordinate.maxWidth\<close> and \<^verbatim>\<open>Coordinate.maxHeight\<close> are class attributes of the
  source (process-wide, \<^verbatim>\<open>None\<close> until discovered). The model passes them explicitly.
\<close>

record geometry =
  maxWidth :: "int option"
  maxHeight :: "int option"

datatype Coordinate = Coordinate (cx: int) (cy: int)

datatype MapValueEnum = EMPTY | OBSTACLE | AGENT | DISPENSER | BLOCK | MARKER | UNKNOWN

datatype MapValue = MapValue (mvValue: MapValueEnum) (details: string) (simulationStep: int)

text \<open>
  Python's \<^verbatim>\<open>x % w\<close> is floor-modulo, as \<open>mod\<close> on \<open>int\<close> is, for every non-zero \<open>w\<close>;
  for \<open>w = 0\<close> Python raises \<^verbatim>\<open>ZeroDivisionError\<close>. The coordinate functions below are the
  source's functions on every geometry whose set dimensions are non-zero
  (\<open>geometryOk\<close>); theorems that depend on normalisation carry that hypothesis.
\<close>

definition geometryOk :: "geometry \<Rightarrow> bool" where
  "geometryOk g \<longleftrightarrow>
     (case maxWidth g of None \<Rightarrow> True | Some w \<Rightarrow> 0 < w) \<and>
     (case maxHeight g of None \<Rightarrow> True | Some h \<Rightarrow> 0 < h)"

definition wrapCoord :: "int option \<Rightarrow> int \<Rightarrow> int" where
  "wrapCoord wrapSize v = (case wrapSize of None \<Rightarrow> v | Some w \<Rightarrow> v mod w)"

definition normalize :: "geometry \<Rightarrow> Coordinate \<Rightarrow> Coordinate" where
  "normalize g c = Coordinate (wrapCoord (maxWidth g) (cx c)) (wrapCoord (maxHeight g) (cy c))"


text \<open>
  The constructor \<^verbatim>\<open>Coordinate(x, y, normalize)\<close> on integer arguments (its floor/ceil
  rounding is the identity there).
\<close>

definition mkCoordinate :: "geometry \<Rightarrow> int \<Rightarrow> int \<Rightarrow> bool \<Rightarrow> Coordinate" where
  "mkCoordinate g x y nrm = (if nrm then normalize g (Coordinate x y) else Coordinate x y)"

definition origo :: "geometry \<Rightarrow> Coordinate" where
  "origo g = mkCoordinate g 0 0 True"

definition copy :: "geometry \<Rightarrow> Coordinate \<Rightarrow> bool \<Rightarrow> Coordinate" where
  "copy g c nrm = mkCoordinate g (cx c) (cy c) nrm"

definition negate :: "Coordinate \<Rightarrow> Coordinate" where
  "negate c = Coordinate (- 1 * cx c) (- 1 * cy c)"

definition getShiftedCoordinate :: "geometry \<Rightarrow> Coordinate \<Rightarrow> Coordinate \<Rightarrow> bool \<Rightarrow> Coordinate" where
  "getShiftedCoordinate g c offsetCoordinate nrm =
     mkCoordinate g (cx c + cx offsetCoordinate) (cy c + cy offsetCoordinate) nrm"

section \<open>The dispenser index and the dynamic map\<close>

text \<open>
  Python dictionaries keep insertion order: they are association lists with distinct keys,
  read with \<open>map_of\<close>, written with \<open>AList.update\<close> (in place for a present key, appended for
  a new one) and \<open>AList.delete\<close>. Python sets are duplicate-free lists; their iteration order
  is not specified by the language and no theorem below depends on it.
\<close>

type_synonym DispenserMap = "(string \<times> Coordinate list) list"

definition setAdd :: "'a \<Rightarrow> 'a list \<Rightarrow> 'a list" where
  "setAdd x xs = (if x \<in> set xs then xs else xs @ [x])"

definition setUpdate :: "'a list \<Rightarrow> 'a list \<Rightarrow> 'a list" where
  "setUpdate xs ys = foldl (\<lambda>acc y. setAdd y acc) xs ys"

definition addDispenser :: "string \<Rightarrow> Coordinate \<Rightarrow> DispenserMap \<Rightarrow> DispenserMap" where
  "addDispenser type coordinate dm =
     (let dm1 = (if type \<notin> fst ` set dm then dm @ [(type, [])] else dm)
      in map (\<lambda>(t, ds). if t = type then (t, setAdd coordinate ds) else (t, ds)) dm1)"

definition getAllDispenserCoords :: "DispenserMap \<Rightarrow> Coordinate list" where
  "getAllDispenserCoords dm = concat (map snd dm)"

definition getDispenserMapValueByCoord :: "DispenserMap \<Rightarrow> Coordinate \<Rightarrow> py_error + MapValue" where
  "getDispenserMapValueByCoord dm coordinate =
     (case filter (\<lambda>(type, ds). coordinate \<in> set ds) dm of
        [] \<Rightarrow> Inl IndexError
      | (type, ds) # rest \<Rightarrow> Inr (MapValue DISPENSER type 0))"

record DynamicMap =
  mapId :: int
  markerPurgeInterval :: int
  unknownCoordSearchMaxIter :: int
  agentCoordinates :: "(string \<times> Coordinate) list"
  agentStartingCoordinates :: "(string \<times> Coordinate) list"
  agentCoordReservations :: "(string \<times> Coordinate list) list"
  store :: "(Coordinate \<times> MapValue) list"
  markers :: "(Coordinate \<times> MapValue) list"
  dispenserMap :: DispenserMap
  roleZones :: "Coordinate list"
  goalZones :: "Coordinate list"

record MapUpdateData =
  udThings :: "(Coordinate \<times> MapValue) list"
  udMarkers :: "(Coordinate \<times> MapValue) list"
  udDispensers :: "(Coordinate \<times> MapValue) list"
  udGoalZones :: "Coordinate list"
  udRoleZones :: "Coordinate list"

definition getMapValue :: "DynamicMap \<Rightarrow> Coordinate \<Rightarrow> bool \<Rightarrow> bool \<Rightarrow> py_error + MapValue" where
  "getMapValue m key needMarker needDispenser =
     (case (if needMarker then map_of (markers m) key else None) of
        Some marker \<Rightarrow> Inr marker
      | None \<Rightarrow>
         (case map_of (store m) key of
            Some v \<Rightarrow>
              (let isDispenser = (key \<in> set (getAllDispenserCoords (dispenserMap m)))
               in if needDispenser \<and> isDispenser
                  then getDispenserMapValueByCoord (dispenserMap m) key
                  else if isDispenser \<and> mvValue v \<notin> set [AGENT, BLOCK]
                  then getDispenserMapValueByCoord (dispenserMap m) key
                  else Inr v)
          | None \<Rightarrow> Inr (MapValue UNKNOWN '''' 0)))"

definition getMapValueEnum :: "DynamicMap \<Rightarrow> Coordinate \<Rightarrow> bool \<Rightarrow> bool \<Rightarrow> py_error + MapValueEnum" where
  "getMapValueEnum m key needMarker needDispenser =
     (case getMapValue m key needMarker needDispenser of
        Inl e \<Rightarrow> Inl e
      | Inr v \<Rightarrow> Inr (mvValue v))"

subsection \<open>Percept update\<close>

fun deleteGoalZones :: "Coordinate list \<Rightarrow> Coordinate list \<Rightarrow> py_error + Coordinate list" where
  "deleteGoalZones [] zones = Inr zones"
| "deleteGoalZones (current # rest) zones =
     (if current \<in> set zones then deleteGoalZones rest (removeAll current zones)
      else Inl KeyError)"

definition addThing :: "MapUpdateData \<Rightarrow> DynamicMap \<times> Coordinate list \<Rightarrow> Coordinate \<times> MapValue
    \<Rightarrow> DynamicMap \<times> Coordinate list" where
  "addThing updateData acc entry =
     (let m = fst acc; deletableGoalZones = snd acc; coord = fst entry; mapValue = snd entry;
          m1 = (case map_of (store m) coord of
                  None \<Rightarrow> m\<lparr>store := AList.update coord mapValue (store m)\<rparr>
                | Some old \<Rightarrow>
                    if simulationStep mapValue > simulationStep old
                    then m\<lparr>store := AList.update coord mapValue (store m)\<rparr> else m);
          m2 = (if coord \<in> fst ` set (markers m1) \<and> coord \<notin> fst ` set (udMarkers updateData)
                then m1\<lparr>markers := AList.delete coord (markers m1)\<rparr> else m1);
          del = (if coord \<in> set (goalZones m2) \<and> coord \<notin> set (udGoalZones updateData)
                 then deletableGoalZones @ [coord] else deletableGoalZones)
      in (m2, del))"

definition purgeMarkers :: "int \<Rightarrow> int \<Rightarrow> (Coordinate \<times> MapValue) list \<Rightarrow> (Coordinate \<times> MapValue) list" where
  "purgeMarkers step interval ms =
     foldl (\<lambda>acc markerCoords.
              case map_of acc markerCoords of
                None \<Rightarrow> acc
              | Some mk \<Rightarrow> if step - simulationStep mk \<ge> interval
                           then AList.delete markerCoords acc else acc)
           ms (map fst ms)"

definition addRange :: "int \<Rightarrow> MapUpdateData \<Rightarrow> DynamicMap \<Rightarrow> py_error + DynamicMap" where
  "addRange step updateData m =
     (let (m1, deletableGoalZones) = foldl (addThing updateData) (m, []) (udThings updateData);
          m2 = m1\<lparr>markers := foldl (\<lambda>acc (coord, mapValue). AList.update coord mapValue acc)
                                  (markers m1) (udMarkers updateData)\<rparr>;
          m3 = m2\<lparr>markers := purgeMarkers step (markerPurgeInterval m2) (markers m2)\<rparr>;
          m4 = m3\<lparr>dispenserMap := foldl (\<lambda>acc (coord, mapValue). addDispenser (details mapValue) coord acc)
                                       (dispenserMap m3) (udDispensers updateData)\<rparr>;
          m5 = m4\<lparr>roleZones := setUpdate (roleZones m4) (udRoleZones updateData)\<rparr>
      in case deleteGoalZones deletableGoalZones (goalZones m5) of
           Inl e \<Rightarrow> Inl e
         | Inr zones \<Rightarrow> Inr (m5\<lparr>goalZones := setUpdate zones (udGoalZones updateData)\<rparr>))"

section \<open>Directions and coordinate arithmetic\<close>

datatype Direction = NORTH | EAST | SOUTH | WEST

datatype RotateDirection = CLOCKWISE | COUNTERCLOCKWISE

fun dirValue :: "Direction \<Rightarrow> int" where
  "dirValue NORTH = 0"
| "dirValue EAST = 1"
| "dirValue SOUTH = 2"
| "dirValue WEST = 3"

fun opposite :: "Direction \<Rightarrow> Direction" where
  "opposite NORTH = SOUTH"
| "opposite EAST = WEST"
| "opposite SOUTH = NORTH"
| "opposite WEST = EAST"

definition directionOf :: "int \<Rightarrow> Direction" where
  "directionOf v = (if v = 0 then NORTH else if v = 1 then EAST else if v = 2 then SOUTH else WEST)"

definition isOppositeDirection :: "Direction \<Rightarrow> Direction \<Rightarrow> bool" where
  "isOppositeDirection d other \<longleftrightarrow> (dirValue d + dirValue other) mod 2 = 0"

definition isSameDirection :: "Direction \<Rightarrow> Direction \<Rightarrow> bool" where
  "isSameDirection d other \<longleftrightarrow> dirValue d = dirValue other"

definition getAdjacentDirections :: "Direction \<Rightarrow> Direction \<times> Direction" where
  "getAdjacentDirections d = (directionOf ((dirValue d + 1) mod 4), directionOf ((dirValue d - 1) mod 4))"

fun moveStep :: "Coordinate \<Rightarrow> Direction \<Rightarrow> Coordinate" where
  "moveStep c NORTH = Coordinate (cx c) (cy c - 1)"
| "moveStep c EAST = Coordinate (cx c + 1) (cy c)"
| "moveStep c SOUTH = Coordinate (cx c) (cy c + 1)"
| "moveStep c WEST = Coordinate (cx c - 1) (cy c)"

definition move :: "geometry \<Rightarrow> Coordinate \<Rightarrow> Direction list \<Rightarrow> bool \<Rightarrow> Coordinate" where
  "move g c directions nrm =
     (let c' = foldl moveStep c directions in if nrm then normalize g c' else c')"

definition getMovedCoord :: "geometry \<Rightarrow> Coordinate \<Rightarrow> Direction list \<Rightarrow> bool \<Rightarrow> Coordinate" where
  "getMovedCoord g c directions nrm = move g (mkCoordinate g (cx c) (cy c) nrm) directions nrm"

definition wrapDifference :: "int option \<Rightarrow> int \<Rightarrow> int" where
  "wrapDifference wrapSize difference =
     (case wrapSize of
        None \<Rightarrow> difference
      | Some w \<Rightarrow>
          (let realCoordPos = difference mod w;
               realCoordNeg = difference mod ((- 1) * w)
           in if \<bar>realCoordPos\<bar> < \<bar>realCoordNeg\<bar> then realCoordPos else realCoordNeg))"

definition getRelativeCoordinate :: "geometry \<Rightarrow> Coordinate \<Rightarrow> Coordinate \<Rightarrow> Coordinate" where
  "getRelativeCoordinate g start endCoord =
     Coordinate (wrapDifference (maxWidth g) (cx endCoord - cx start))
                (wrapDifference (maxHeight g) (cy endCoord - cy start))"

definition manhattanDistance :: "geometry \<Rightarrow> Coordinate \<Rightarrow> Coordinate \<Rightarrow> int" where
  "manhattanDistance g start endCoord =
     (let relCoord = getRelativeCoordinate g start endCoord in \<bar>cx relCoord\<bar> + \<bar>cy relCoord\<bar>)"

definition distance :: "geometry \<Rightarrow> Coordinate \<Rightarrow> Coordinate \<Rightarrow> real" where
  "distance g start endCoord =
     (let relCoord = getRelativeCoordinate g start endCoord
      in sqrt (real_of_int ((cx relCoord)\<^sup>2 + (cy relCoord)\<^sup>2)))"

definition getDirection :: "geometry \<Rightarrow> Coordinate \<Rightarrow> Coordinate \<Rightarrow> Direction" where
  "getDirection g start endCoord =
     (let relCoord = getRelativeCoordinate g start endCoord
      in if cx relCoord = 0 \<and> cy relCoord > 0 then SOUTH
         else if cx relCoord > 0 \<and> cy relCoord = 0 then EAST
         else if cx relCoord = 0 \<and> cy relCoord < 0 then NORTH
         else if cx relCoord < 0 \<and> cy relCoord = 0 then WEST
         else if \<bar>cx relCoord\<bar> \<ge> \<bar>cy relCoord\<bar> then (if cx relCoord > 0 then EAST else WEST)
         else (if cy relCoord > 0 then SOUTH else NORTH))"

definition getRelativeCoordinateByDirection :: "Direction \<Rightarrow> Coordinate" where
  "getRelativeCoordinateByDirection d =
     (case d of NORTH \<Rightarrow> Coordinate 0 (- 1) | EAST \<Rightarrow> Coordinate 1 0
              | SOUTH \<Rightarrow> Coordinate 0 1 | WEST \<Rightarrow> Coordinate (- 1) 0)"

text \<open>
  \<^verbatim>\<open>neighbors\<close>: the two nested \<^verbatim>\<open>range\<close> loops (\<^verbatim>\<open>range(a, b)\<close> is \<open>[a .. b - 1]\<close>), the
  distance filter, and the removal of the first occurrence of the coordinate itself.
\<close>

definition neighbors :: "geometry \<Rightarrow> Coordinate \<Rightarrow> bool \<Rightarrow> int \<Rightarrow> int \<Rightarrow> Coordinate list" where
  "neighbors g c nrm searchRange distant =
     (let cands = concat (map (\<lambda>i. map (\<lambda>j. mkCoordinate g i j nrm)
                                      [cy c - searchRange .. cy c + searchRange + 1 - 1])
                          [cx c - searchRange .. cx c + searchRange + 1 - 1]);
          ns = filter (\<lambda>coord. manhattanDistance g c coord \<le> searchRange \<and>
                               manhattanDistance g c coord \<ge> distant) cands
      in remove1 c ns)"

definition getSurroundingNeighbors :: "geometry \<Rightarrow> Coordinate \<Rightarrow> bool \<Rightarrow> Coordinate list" where
  "getSurroundingNeighbors g c nrm =
     neighbors g c nrm 1 0 @
     [getShiftedCoordinate g c (mkCoordinate g 1 1 nrm) True,
      getShiftedCoordinate g c (mkCoordinate g 1 (- 1) nrm) True,
      getShiftedCoordinate g c (mkCoordinate g (- 1) 1 nrm) True,
      getShiftedCoordinate g c (mkCoordinate g (- 1) (- 1) nrm) True]"

definition getRotateDirection :: "Coordinate \<Rightarrow> Direction \<Rightarrow> RotateDirection" where
  "getRotateDirection c d =
     (case d of
        NORTH \<Rightarrow> (if cx c > 0 then CLOCKWISE else COUNTERCLOCKWISE)
      | EAST \<Rightarrow> (if cy c > 0 then CLOCKWISE else COUNTERCLOCKWISE)
      | SOUTH \<Rightarrow> (if cx c > 0 then COUNTERCLOCKWISE else CLOCKWISE)
      | WEST \<Rightarrow> (if cy c > 0 then COUNTERCLOCKWISE else CLOCKWISE))"

definition getRotatedRelCoord :: "Coordinate \<Rightarrow> RotateDirection \<Rightarrow> Coordinate" where
  "getRotatedRelCoord c d =
     (case d of
        CLOCKWISE \<Rightarrow> Coordinate (cy c * (- 1)) (cx c)
      | COUNTERCLOCKWISE \<Rightarrow> Coordinate (cy c) (cx c * (- 1)))"

text \<open>
  A relative offset is the shortest one on the torus when each component lies in the
  half-open window \<open>[-w/2, w/2)\<close> of its dimension (any value while the dimension is unset).
\<close>

definition inWindow :: "int option \<Rightarrow> int \<Rightarrow> bool" where
  "inWindow wrapSize r = (case wrapSize of None \<Rightarrow> True | Some w \<Rightarrow> - w \<le> 2 * r \<and> 2 * r < w)"

definition isShortestOffset :: "geometry \<Rightarrow> Coordinate \<Rightarrow> bool" where
  "isShortestOffset g r \<longleftrightarrow> inWindow (maxWidth g) (cx r) \<and> inWindow (maxHeight g) (cy r)"


text \<open>The net displacement of a direction sequence, used to state what \<open>move\<close> computes.\<close>

fun moveDelta :: "Direction list \<Rightarrow> int \<times> int" where
  "moveDelta [] = (0, 0)"
| "moveDelta (d # ds) =
     (case d of
        NORTH \<Rightarrow> (fst (moveDelta ds), snd (moveDelta ds) - 1)
      | EAST \<Rightarrow> (fst (moveDelta ds) + 1, snd (moveDelta ds))
      | SOUTH \<Rightarrow> (fst (moveDelta ds), snd (moveDelta ds) + 1)
      | WEST \<Rightarrow> (fst (moveDelta ds) - 1, snd (moveDelta ds)))"

definition dimOk :: "int option \<Rightarrow> bool" where
  "dimOk wo = (case wo of None \<Rightarrow> True | Some w \<Rightarrow> 0 < w)"


section \<open>The map server\<close>

record MapServer =
  aliasis :: "(string \<times> int) list"
  maps :: "(int \<times> DynamicMap) list"
  nextMapId :: int
  gridWidth :: "int option"
  gridHeight :: "int option"
  mapUnknownCoordSearchMaxIter :: int
  currentDynamicPerceptWrappers :: "(string \<times> (Coordinate \<times> MapValue) list) list"

definition calculateMapGridSize :: "MapServer \<Rightarrow> Coordinate \<Rightarrow> Coordinate \<Rightarrow> Coordinate \<Rightarrow> int \<Rightarrow> MapServer" where
  "calculateMapGridSize srv agentCoordinate1 agentCoordinate2 relCoordinate agentVision =
     (let xDifference = \<bar>cx agentCoordinate1 - cx agentCoordinate2\<bar>;
          yDifference = \<bar>cy agentCoordinate1 - cy agentCoordinate2\<bar>;
          widthDifference = \<bar>cx agentCoordinate1 - cx agentCoordinate2 + cx relCoordinate\<bar>;
          heightDifference = \<bar>cy agentCoordinate1 - cy agentCoordinate2 + cy relCoordinate\<bar>;
          srv1 = (if (case gridWidth srv of None \<Rightarrow> True | Some w \<Rightarrow> widthDifference < w) \<and>
                     xDifference > agentVision
                  then srv\<lparr>gridWidth := Some widthDifference\<rparr> else srv)
      in if (case gridHeight srv1 of None \<Rightarrow> True | Some h \<Rightarrow> heightDifference < h) \<and>
            yDifference > agentVision
         then srv1\<lparr>gridHeight := Some heightDifference\<rparr> else srv1)"







section \<open>Merging two maps\<close>

text \<open>
  The body shared by the cell loop and the marker loop of \<^verbatim>\<open>DynamicMap.merge\<close>: the entry
  of the other map is stored at its shifted coordinate when that coordinate is free or holds
  an entry with a strictly smaller step. (The cell loop calls \<^verbatim>\<open>update\<close> on the stored
  value, the marker loop assigns; both leave the other entry's fields under the key.)
\<close>

definition mergeEntry :: "(Coordinate \<Rightarrow> Coordinate) \<Rightarrow> (Coordinate \<times> MapValue) list
    \<Rightarrow> Coordinate \<times> MapValue \<Rightarrow> (Coordinate \<times> MapValue) list" where
  "mergeEntry sh acc entry =
     (let shiftedCoordinate = sh (fst entry); v = snd entry
      in case map_of acc shiftedCoordinate of
           None \<Rightarrow> AList.update shiftedCoordinate v acc
         | Some old \<Rightarrow> if simulationStep old < simulationStep v
                        then AList.update shiftedCoordinate v acc else acc)"

definition mergeDispensers :: "(Coordinate \<Rightarrow> Coordinate) \<Rightarrow> DispenserMap \<Rightarrow> DispenserMap \<Rightarrow> DispenserMap" where
  "mergeDispensers sh mine others =
     foldl (\<lambda>acc (type, coordList). foldl (\<lambda>acc2 coord. addDispenser type (sh coord) acc2) acc coordList)
           mine others"

definition merge :: "geometry \<Rightarrow> DynamicMap \<Rightarrow> DynamicMap \<Rightarrow> Coordinate \<Rightarrow> Coordinate
    \<Rightarrow> DynamicMap \<times> Coordinate" where
  "merge g self otherMap othersCoordinateInMyMap othersCoordinateInOthersMap =
     (let xDifference = cx othersCoordinateInMyMap - cx othersCoordinateInOthersMap;
          yDifference = cy othersCoordinateInMyMap - cy othersCoordinateInOthersMap;
          sh = (\<lambda>c. mkCoordinate g (cx c + xDifference) (cy c + yDifference) True)
      in (self\<lparr>
            store := foldl (mergeEntry sh) (store self) (store otherMap),
            markers := foldl (mergeEntry sh) (markers self) (markers otherMap),
            agentCoordinates :=
              foldl (\<lambda>acc (agentId, coord). AList.update agentId (sh coord) acc)
                    (agentCoordinates self) (agentCoordinates otherMap),
            agentStartingCoordinates :=
              foldl (\<lambda>acc (agentId, coord). AList.update agentId (sh coord) acc)
                    (agentStartingCoordinates self) (agentStartingCoordinates otherMap),
            agentCoordReservations :=
              foldl (\<lambda>acc (agentId, reservedCoords). AList.update agentId (map sh reservedCoords) acc)
                    (agentCoordReservations self) (agentCoordReservations otherMap),
            dispenserMap := mergeDispensers sh (dispenserMap self) (dispenserMap otherMap),
            roleZones := setUpdate (roleZones self) (map sh (roleZones otherMap)),
            goalZones := setUpdate (goalZones self) (map sh (goalZones otherMap))\<rparr>,
          Coordinate xDifference yDifference))"


definition hasDispenser :: "DispenserMap \<Rightarrow> string \<Rightarrow> Coordinate \<Rightarrow> bool" where
  "hasDispenser dm t c \<longleftrightarrow> (\<exists>ds. (t, ds) \<in> set dm \<and> c \<in> set ds)"




section \<open>The path planner's cost model\<close>

text \<open>
  Costs are Python floats; they are modelled as real numbers (exact arithmetic, no rounding).
  \<^verbatim>\<open>getMapValueEnum\<close> never fails (shown below as \<open>getMapValue_returns\<close>), so the
  planner reads the cell type through a total projection.
\<close>

definition mapValueEnumAt :: "DynamicMap \<Rightarrow> Coordinate \<Rightarrow> bool \<Rightarrow> bool \<Rightarrow> MapValueEnum" where
  "mapValueEnumAt m key needMarker needDispenser =
     (case getMapValueEnum m key needMarker needDispenser of Inr v \<Rightarrow> v | Inl e \<Rightarrow> UNKNOWN)"

definition blockClearValue :: real where
  "blockClearValue = 100"

definition calculateTravelConstantCosts :: "int \<Rightarrow> int \<Rightarrow> int \<Rightarrow> int \<Rightarrow> real \<Rightarrow> real
    \<Rightarrow> py_error + (real \<times> real \<times> int)" where
  "calculateTravelConstantCosts agentSpeed clearEnergyCost agentEnergy agentMaxEnergy clearChance
       clearConstantCost =
     (if agentSpeed = 0 then Inl ZeroDivisionError
      else if agentMaxEnergy = 0 then Inl ZeroDivisionError
      else if clearChance = 0 then Inl ZeroDivisionError
      else
        (let agentTravelTime = 1 / real_of_int agentSpeed;
             clearCost = clearConstantCost /
                 (max (real_of_int (agentEnergy - clearEnergyCost)) (1 / 10) / real_of_int agentMaxEnergy);
             clearSuccessTime = \<lceil>1 / clearChance\<rceil>
         in Inr (agentTravelTime, clearCost, clearSuccessTime)))"

definition clearCostOf :: "int \<Rightarrow> real \<Rightarrow> real" where
  "clearCostOf clearSuccessTime clearEnergyCost = real_of_int clearSuccessTime + clearEnergyCost"

definition distanceCostWithoutRotating :: "MapValueEnum \<Rightarrow> real \<Rightarrow> int \<Rightarrow> real \<Rightarrow> real" where
  "distanceCostWithoutRotating endValue agentTravelTime clearSuccessTime clearCost =
     (if endValue = OBSTACLE then 1 + clearCostOf clearSuccessTime clearCost
      else if endValue = BLOCK then blockClearValue + clearCostOf clearSuccessTime clearCost
      else agentTravelTime)"

definition distanceCostWithRotating :: "geometry \<Rightarrow> DynamicMap \<Rightarrow> Coordinate \<Rightarrow> Coordinate \<Rightarrow> int
    \<Rightarrow> real \<Rightarrow> Coordinate \<Rightarrow> real" where
  "distanceCostWithRotating g m currentCoordinate nextCoordinate clearSuccessTime clearCost attachedCoord =
     (let nextCoordValue = mapValueEnumAt m nextCoordinate False False;
          cost0 = (3 :: real);
          cost1 = (if nextCoordValue = OBSTACLE then cost0 + clearCostOf clearSuccessTime clearCost
                   else if nextCoordValue = BLOCK
                   then cost0 + (blockClearValue + clearCostOf clearSuccessTime clearCost)
                   else cost0);
          adjacentCoordValue = mapValueEnumAt m
             (getMovedCoord g currentCoordinate [getDirection g nextCoordinate currentCoordinate] True)
             False False
      in if adjacentCoordValue = OBSTACLE then cost1 + clearCostOf clearSuccessTime clearCost
         else if adjacentCoordValue = BLOCK \<and>
                 getRelativeCoordinate g currentCoordinate nextCoordinate \<noteq> attachedCoord
         then cost1 + (blockClearValue + clearCostOf clearSuccessTime clearCost)
         else cost1)"

definition rotateCost :: "DynamicMap \<Rightarrow> int \<Rightarrow> real \<Rightarrow> real \<Rightarrow> Coordinate list \<Rightarrow> real" where
  "rotateCost m clearSuccessTime clearCost cost coords =
     foldl (\<lambda>acc coord.
              let coordValue = mapValueEnumAt m coord False False
              in if coordValue = OBSTACLE then acc + clearCostOf clearSuccessTime clearCost
                 else if coordValue = BLOCK
                 then acc + (blockClearValue + clearCostOf clearSuccessTime clearCost)
                 else acc) cost coords"

definition distanceCostWithOppositeRotating :: "geometry \<Rightarrow> DynamicMap \<Rightarrow> Coordinate \<Rightarrow> Coordinate
    \<Rightarrow> int \<Rightarrow> real \<Rightarrow> (Direction \<times> bool) list \<Rightarrow> py_error + (real \<times> Direction option)" where
  "distanceCostWithOppositeRotating g m currentCoordinate nextCoordinate clearSuccessTime clearCost rotateDict =
     (let cost = (6 :: real);
          faceDirection = getDirection g nextCoordinate currentCoordinate;
          frontCoord = getMovedCoord g currentCoordinate [faceDirection] True;
          leftDirection = fst (getAdjacentDirections faceDirection);
          rightDirection = snd (getAdjacentDirections faceDirection);
          leftCheckableCoords = [getMovedCoord g currentCoordinate [leftDirection] True, frontCoord];
          rightCheckableCoords = [getMovedCoord g currentCoordinate [rightDirection] True, frontCoord];
          leftRotateCost = rotateCost m clearSuccessTime clearCost cost leftCheckableCoords;
          rightRotateCost = rotateCost m clearSuccessTime clearCost cost rightCheckableCoords
      in case map_of rotateDict leftDirection of
           None \<Rightarrow> Inl KeyError
         | Some canLeft \<Rightarrow>
             if \<not> canLeft then Inr (rightRotateCost, Some rightDirection)
             else (case map_of rotateDict rightDirection of
                     None \<Rightarrow> Inl KeyError
                   | Some canRight \<Rightarrow>
                       if \<not> canRight then Inr (leftRotateCost, Some leftDirection)
                       else if leftRotateCost \<le> rightRotateCost
                       then Inr (leftRotateCost, Some leftDirection)
                       else Inr (rightRotateCost, Some rightDirection)))"

definition distanceCost :: "geometry \<Rightarrow> DynamicMap \<Rightarrow> Coordinate \<Rightarrow> Coordinate \<Rightarrow> real \<Rightarrow> int \<Rightarrow> real
    \<Rightarrow> Coordinate list \<Rightarrow> (Direction \<times> bool) list option \<Rightarrow> py_error + (real \<times> Direction option)" where
  "distanceCost g m currentCoordinate nextCoordinate agentTravelTime clearSuccessTime clearCost
       attachedCoordList rotateDict =
     (case (attachedCoordList, rotateDict) of
        ([attachedCoord], Some rd) \<Rightarrow>
          (let moveDirection = getDirection g currentCoordinate nextCoordinate;
               faceDirection = getDirection g attachedCoord (origo g)
           in if isSameDirection moveDirection faceDirection
              then Inr (distanceCostWithoutRotating (mapValueEnumAt m nextCoordinate False False)
                          agentTravelTime clearSuccessTime clearCost, None)
              else if isOppositeDirection moveDirection faceDirection
              then distanceCostWithOppositeRotating g m currentCoordinate nextCoordinate
                     clearSuccessTime clearCost rd
              else (case rd of
                      [] \<Rightarrow> Inl IndexError
                    | (d, b) # rest \<Rightarrow>
                        Inr (distanceCostWithRotating g m currentCoordinate nextCoordinate
                               clearSuccessTime clearCost attachedCoord, Some d)))
      | _ \<Rightarrow> Inr (distanceCostWithoutRotating (mapValueEnumAt m nextCoordinate False False)
                     agentTravelTime clearSuccessTime clearCost, None))"

definition heuristicCost :: "geometry \<Rightarrow> Coordinate \<Rightarrow> Coordinate \<Rightarrow> real" where
  "heuristicCost g start endCoord = distance g start endCoord"

text \<open>
  A path from a coordinate: the successive cells, each with the attachment list and rotate
  dictionary in force for that step; each cell is a neighbour of the previous one, as in
  \<^verbatim>\<open>getNeighbors\<close>. Its total cost is the sum of the edge costs, as the search
  accumulates it in \<^verbatim>\<open>gScore\<close>.
\<close>

type_synonym pathStep = "Coordinate \<times> Coordinate list \<times> (Direction \<times> bool) list option"

fun isPath :: "geometry \<Rightarrow> Coordinate \<Rightarrow> pathStep list \<Rightarrow> bool" where
  "isPath g current [] = True"
| "isPath g current ((nextCoordinate, attached, rd) # rest) =
     (nextCoordinate \<in> set (neighbors g current True 1 0) \<and> isPath g nextCoordinate rest)"

fun pathEnd :: "Coordinate \<Rightarrow> pathStep list \<Rightarrow> Coordinate" where
  "pathEnd current [] = current"
| "pathEnd current ((nextCoordinate, attached, rd) # rest) = pathEnd nextCoordinate rest"

fun pathCost :: "geometry \<Rightarrow> DynamicMap \<Rightarrow> real \<Rightarrow> int \<Rightarrow> real \<Rightarrow> Coordinate \<Rightarrow> pathStep list
    \<Rightarrow> py_error + real" where
  "pathCost g m agentTravelTime clearSuccessTime clearCost current [] = Inr 0"
| "pathCost g m agentTravelTime clearSuccessTime clearCost current ((nextCoordinate, attached, rd) # rest) =
     (case distanceCost g m current nextCoordinate agentTravelTime clearSuccessTime clearCost attached rd of
        Inl e \<Rightarrow> Inl e
      | Inr (cost, rotateDirection) \<Rightarrow>
          (case pathCost g m agentTravelTime clearSuccessTime clearCost nextCoordinate rest of
             Inl e \<Rightarrow> Inl e
           | Inr restCost \<Rightarrow> Inr (cost + restCost)))"


section \<open>Goal-zone reservations\<close>

definition allReservedCoords :: "DynamicMap \<Rightarrow> Coordinate list" where
  "allReservedCoords m = concat (map snd (agentCoordReservations m))"

definition isCoordinateReservedForTask :: "DynamicMap \<Rightarrow> Coordinate \<Rightarrow> bool" where
  "isCoordinateReservedForTask m coordinate \<longleftrightarrow> coordinate \<in> set (allReservedCoords m)"

definition reserveCoordinatesForTask :: "geometry \<Rightarrow> DynamicMap \<Rightarrow> string \<Rightarrow> Coordinate \<Rightarrow> Coordinate list
    \<Rightarrow> DynamicMap" where
  "reserveCoordinatesForTask g m agentId goalZone blockRelCoords =
     (let reservedCoords0 = [goalZone] @ map (\<lambda>bc. getShiftedCoordinate g goalZone bc True) blockRelCoords;
          reservedCoords = concat (map (\<lambda>c. getSurroundingNeighbors g c True) reservedCoords0);
          rs = (if agentId \<notin> fst ` set (agentCoordReservations m)
                then AList.update agentId [] (agentCoordReservations m)
                else agentCoordReservations m)
      in m\<lparr>agentCoordReservations :=
             (case map_of rs agentId of
                None \<Rightarrow> rs
              | Some old \<Rightarrow> AList.update agentId (old @ reservedCoords) rs)\<rparr>)"

definition freeCoordinatesFromTask :: "DynamicMap \<Rightarrow> string \<Rightarrow> DynamicMap" where
  "freeCoordinatesFromTask m agentId =
     m\<lparr>agentCoordReservations := AList.update agentId [] (agentCoordReservations m)\<rparr>"

text \<open>
  The cells \<^verbatim>\<open>getFirstFreeGoalZoneForTask\<close> examines for one goal zone: the surrounding
  neighbours of the block positions (the set built from them, as a duplicate-free list).
\<close>

definition reserveableCoordsOf :: "geometry \<Rightarrow> Coordinate \<Rightarrow> Coordinate list \<Rightarrow> Coordinate list" where
  "reserveableCoordsOf g goalZone blockRelCoords =
     (let blockGlobalCoords = map (\<lambda>bc. getShiftedCoordinate g goalZone bc True) blockRelCoords
      in remdups (concat (map (\<lambda>c. getSurroundingNeighbors g c True) blockGlobalCoords)))"

fun firstFreeGoalZone :: "geometry \<Rightarrow> DynamicMap \<Rightarrow> Coordinate list \<Rightarrow> Coordinate list \<Rightarrow> Coordinate list
    \<Rightarrow> Coordinate option" where
  "firstFreeGoalZone g m reservedCoords [] blockRelCoords = None"
| "firstFreeGoalZone g m reservedCoords (goalZone # rest) blockRelCoords =
     (if list_all (\<lambda>rc. rc \<notin> set reservedCoords \<and> mapValueEnumAt m rc False True \<noteq> DISPENSER)
                  (reserveableCoordsOf g goalZone blockRelCoords)
      then Some goalZone
      else firstFreeGoalZone g m reservedCoords rest blockRelCoords)"

definition getFirstFreeGoalZoneForTask :: "geometry \<Rightarrow> DynamicMap \<Rightarrow> Coordinate list \<Rightarrow> Coordinate list
    \<Rightarrow> Coordinate option" where
  "getFirstFreeGoalZoneForTask g m zones blockRelCoords =
     firstFreeGoalZone g m (allReservedCoords m) zones blockRelCoords"

text \<open>
  \<^verbatim>\<open>tryReserveCloserGoalZoneForTask\<close> without its semaphore calls: the candidate zones are
  filtered, stably sorted by distance (\<open>sort_key\<close> is stable, as Python's \<^verbatim>\<open>sorted\<close> is),
  and the first free one is reserved after the agent's earlier reservation is emptied.
\<close>

definition closerGoalZones :: "geometry \<Rightarrow> DynamicMap \<Rightarrow> Coordinate option \<Rightarrow> Coordinate \<Rightarrow> Coordinate list" where
  "closerGoalZones g m currentGoalZone currentCoordinate =
     sort_key (\<lambda>c. distance g c currentCoordinate)
       (filter (\<lambda>c. c = currentCoordinate \<or>
                    (mapValueEnumAt m c True False \<notin> set [DISPENSER, AGENT, BLOCK, MARKER] \<and>
                     (case currentGoalZone of
                        None \<Rightarrow> True
                      | Some cgz \<Rightarrow> distance g currentCoordinate c < distance g currentCoordinate cgz)))
               (goalZones m))"

definition tryReserveCloserGoalZoneForTask :: "geometry \<Rightarrow> DynamicMap \<Rightarrow> string \<Rightarrow> Coordinate option
    \<Rightarrow> Coordinate \<Rightarrow> Coordinate list \<Rightarrow> DynamicMap \<times> Coordinate option" where
  "tryReserveCloserGoalZoneForTask g m agentId currentGoalZone currentCoordinate blockRelCoords =
     (let zones = closerGoalZones g m currentGoalZone currentCoordinate;
          result = getFirstFreeGoalZoneForTask g m zones blockRelCoords
      in case result of
           None \<Rightarrow> (m, None)
         | Some zone \<Rightarrow>
             (reserveCoordinatesForTask g (freeCoordinatesFromTask m agentId) agentId zone blockRelCoords,
              Some zone))"

text \<open>The cells an agent holds, and the cells a reservation at a zone records.\<close>

definition reservationOf :: "DynamicMap \<Rightarrow> string \<Rightarrow> Coordinate list" where
  "reservationOf m agentId = (case map_of (agentCoordReservations m) agentId of None \<Rightarrow> [] | Some cs \<Rightarrow> cs)"

definition reservedCellsFor :: "geometry \<Rightarrow> Coordinate \<Rightarrow> Coordinate list \<Rightarrow> Coordinate list" where
  "reservedCellsFor g goalZone blockRelCoords =
     concat (map (\<lambda>c. getSurroundingNeighbors g c True)
               (goalZone # map (\<lambda>bc. getShiftedCoordinate g goalZone bc True) blockRelCoords))"


section \<open>Identity resolution\<close>

definition bindE :: "py_error + 'a \<Rightarrow> ('a \<Rightarrow> py_error + 'b) \<Rightarrow> py_error + 'b" where
  "bindE x f = (case x of Inl e \<Rightarrow> Inl e | Inr v \<Rightarrow> f v)"

definition lookupE :: "('k \<times> 'v) list \<Rightarrow> 'k \<Rightarrow> py_error + 'v" where
  "lookupE d k = (case map_of d k of None \<Rightarrow> Inl KeyError | Some v \<Rightarrow> Inr v)"

text \<open>
  \<^verbatim>\<open>MapValue.__eq__\<close>; \<^verbatim>\<open>!=\<close> is its negation.
\<close>

definition mapValueEq :: "MapValue \<Rightarrow> MapValue \<Rightarrow> bool" where
  "mapValueEq a b \<longleftrightarrow>
     mvValue a = mvValue b \<and> simulationStep a = simulationStep b \<and>
     (details a = details b \<or> (mvValue a = AGENT \<and> simulationStep a = 0))"

definition getMap :: "MapServer \<Rightarrow> string \<Rightarrow> py_error + DynamicMap" where
  "getMap srv agentId = bindE (lookupE (aliasis srv) agentId) (\<lambda>alias. lookupE (maps srv) alias)"

definition getAgentCoordinate :: "geometry \<Rightarrow> DynamicMap \<Rightarrow> string \<Rightarrow> py_error + Coordinate" where
  "getAgentCoordinate g m agentId =
     bindE (lookupE (agentCoordinates m) agentId) (\<lambda>c. Inr (copy g c True))"

text \<open>
  \<^verbatim>\<open>mergeMaps\<close>. Its only caller invokes it for agents with different map ids.
\<close>

definition mergeMaps :: "geometry \<Rightarrow> MapServer \<Rightarrow> string \<Rightarrow> string \<Rightarrow> Coordinate
    \<Rightarrow> py_error + (MapServer \<times> Coordinate)" where
  "mergeMaps g srv firstAgentId secondAgentId othersCoordinateInMyMap =
     bindE (lookupE (aliasis srv) firstAgentId) (\<lambda>firstMapId.
     bindE (lookupE (aliasis srv) secondAgentId) (\<lambda>secondMapId.
     bindE (lookupE (maps srv) firstMapId) (\<lambda>firstMap.
     bindE (lookupE (maps srv) secondMapId) (\<lambda>secondMap.
     bindE (getAgentCoordinate g secondMap secondAgentId) (\<lambda>othersCoordinateInOthersMap.
       (let (merged, offsetCoord) = merge g firstMap secondMap othersCoordinateInMyMap
                                      othersCoordinateInOthersMap;
            maps1 = AList.update firstMapId merged (maps srv);
            aliasis1 = map (\<lambda>(agentId, alias). if alias = secondMapId then (agentId, firstMapId)
                                                else (agentId, alias)) (aliasis srv)
        in Inr (srv\<lparr>aliasis := aliasis1, maps := AList.delete secondMapId maps1\<rparr>, offsetCoord)))))))"

text \<open>The loop state of the pass: the server, the offsets dictionary and the boundary flag.\<close>

type_synonym passState = "MapServer \<times> (string \<times> Coordinate) list \<times> bool"

type_synonym percept = "(Coordinate \<times> MapValue) list"

definition unknownOtherAgents :: "geometry \<Rightarrow> percept \<Rightarrow> py_error + Coordinate list" where
  "unknownOtherAgents g dynamicPercept =
     (if \<exists>(coord, mapValue) \<in> set dynamicPercept. mvValue mapValue = AGENT \<and> coord \<noteq> origo g
      then bindE (lookupE dynamicPercept (origo g)) (\<lambda>me.
             Inr (map fst (filter (\<lambda>(coord, mapValue). mvValue mapValue = AGENT \<and> coord \<noteq> origo g \<and>
                                     details mapValue = details me) dynamicPercept)))
      else Inr [])"

text \<open>
  The candidates one observed teammate contributes: every other agent that sees a teammate
  at the negated offset (\<open>seesBack\<close>), of the observer's team, and whose percept does not
  contradict the observer's. The observer's own entry \<^verbatim>\<open>dynamicPercept[origo]\<close> is read, and
  may raise, only once some other agent sees an agent at the negated offset.
\<close>

definition seesBack :: "string \<Rightarrow> Coordinate \<Rightarrow> string \<times> percept \<Rightarrow> bool" where
  "seesBack agentId otherAgentCoord other =
     (agentId \<noteq> fst other \<and>
      (case map_of (snd other) (negate otherAgentCoord) of
         None \<Rightarrow> False
       | Some seen \<Rightarrow> mvValue seen = AGENT))"

definition isCandidate :: "geometry \<Rightarrow> MapValue \<Rightarrow> percept \<Rightarrow> Coordinate \<Rightarrow> string \<times> percept \<Rightarrow> bool" where
  "isCandidate g me dynamicPercept otherAgentCoord other =
     (case map_of (snd other) (negate otherAgentCoord) of
        None \<Rightarrow> False
      | Some seen \<Rightarrow>
          details seen = details me \<and>
          list_all (\<lambda>(otherCoord, otherMapValue).
                      case map_of dynamicPercept
                             (getShiftedCoordinate g otherAgentCoord otherCoord False) of
                        None \<Rightarrow> True
                      | Some mine \<Rightarrow> mapValueEq mine otherMapValue)
                   (snd other))"

definition newCandidates :: "geometry \<Rightarrow> (string \<times> percept) list \<Rightarrow> string \<Rightarrow> percept \<Rightarrow> Coordinate
    \<Rightarrow> py_error + (string \<times> Coordinate) list" where
  "newCandidates g percepts agentId dynamicPercept otherAgentCoord =
     (let seeing = filter (seesBack agentId otherAgentCoord) percepts
      in if seeing = [] then Inr []
         else bindE (lookupE dynamicPercept (origo g)) (\<lambda>me.
                Inr (map (\<lambda>other. (fst other, copy g otherAgentCoord False))
                         (filter (isCandidate g me dynamicPercept otherAgentCoord) seeing))))"

definition maxPerceptX :: "percept \<Rightarrow> py_error + int" where
  "maxPerceptX dynamicPercept =
     (case dynamicPercept of
        [] \<Rightarrow> Inl ValueError
      | (c, v) # rest \<Rightarrow> Inr (foldl max (cx c) (map (\<lambda>e. cx (fst e)) rest)))"

text \<open>
  What the pass does for the single candidate of an agent: merge the two maps when the
  agents are in different maps, otherwise compute grid dimensions when the recorded
  coordinate of the candidate disagrees with the observed one.
\<close>

definition applyIdentification :: "geometry \<Rightarrow> passState \<Rightarrow> string \<Rightarrow> percept \<Rightarrow> DynamicMap
    \<Rightarrow> string \<times> Coordinate \<Rightarrow> py_error + passState" where
  "applyIdentification g st agentId dynamicPercept currentAgentMap canditate =
     (let srv = fst st; offsets = fst (snd st); reached = snd (snd st);
          canditateId = fst canditate; canditateRelCoord = snd canditate
      in bindE (getAgentCoordinate g currentAgentMap agentId) (\<lambda>currentAgentCoordinate.
         bindE (lookupE (aliasis srv) agentId) (\<lambda>myAlias.
         bindE (lookupE (aliasis srv) canditateId) (\<lambda>otherAlias.
           if myAlias \<noteq> otherAlias
           then bindE (lookupE (maps srv) otherAlias) (\<lambda>otherMap.
                bindE (mergeMaps g srv agentId canditateId
                         (getShiftedCoordinate g currentAgentCoordinate canditateRelCoord True))
                  (\<lambda>(srv', offsetCoord).
                     Inr (srv',
                          foldl (\<lambda>acc updateableAgentId. AList.update updateableAgentId offsetCoord acc)
                                offsets (map fst (agentCoordinates otherMap)),
                          reached)))
           else bindE (getAgentCoordinate g currentAgentMap canditateId) (\<lambda>canditateCoordinate.
                  if canditateCoordinate \<noteq>
                     getShiftedCoordinate g currentAgentCoordinate canditateRelCoord True
                  then bindE (maxPerceptX dynamicPercept) (\<lambda>agentVision.
                         Inr (calculateMapGridSize srv currentAgentCoordinate canditateCoordinate
                                canditateRelCoord agentVision, offsets, True))
                  else Inr st)))))"

text \<open>
  The check made after each observed teammate, on the candidate list accumulated so far for
  the observing agent.
\<close>

definition identifyStep :: "geometry \<Rightarrow> passState \<Rightarrow> string \<Rightarrow> percept \<Rightarrow> (string \<times> Coordinate) list
    \<Rightarrow> py_error + passState" where
  "identifyStep g st agentId dynamicPercept canditates =
     bindE (getMap (fst st) agentId) (\<lambda>currentAgentMap.
       if length canditates = 1
       then applyIdentification g st agentId dynamicPercept currentAgentMap (hd canditates)
       else Inr st)"

fun agentLoop :: "geometry \<Rightarrow> passState \<Rightarrow> string \<Rightarrow> percept \<Rightarrow> (string \<times> Coordinate) list
    \<Rightarrow> Coordinate list \<Rightarrow> py_error + (passState \<times> (string \<times> Coordinate) list)" where
  "agentLoop g st agentId dynamicPercept canditates [] = Inr (st, canditates)"
| "agentLoop g st agentId dynamicPercept canditates (otherAgentCoord # rest) =
     bindE (newCandidates g (currentDynamicPerceptWrappers (fst st)) agentId dynamicPercept
              otherAgentCoord) (\<lambda>found.
       (let canditates' = canditates @ found
        in bindE (identifyStep g st agentId dynamicPercept canditates')
             (\<lambda>st'. agentLoop g st' agentId dynamicPercept canditates' rest)))"

definition identifyAgent :: "geometry \<Rightarrow> passState \<Rightarrow> string \<times> percept \<Rightarrow> py_error + passState" where
  "identifyAgent g st entry =
     bindE (unknownOtherAgents g (snd entry)) (\<lambda>coords.
     bindE (agentLoop g st (fst entry) (snd entry) [] coords) (\<lambda>(st', canditates). Inr st'))"

fun identifyAll :: "geometry \<Rightarrow> passState \<Rightarrow> (string \<times> percept) list \<Rightarrow> py_error + passState" where
  "identifyAll g st [] = Inr st"
| "identifyAll g st (entry # rest) = bindE (identifyAgent g st entry) (\<lambda>st'. identifyAll g st' rest)"

definition checkAgentIdentifications :: "geometry \<Rightarrow> MapServer \<Rightarrow> py_error + passState" where
  "checkAgentIdentifications g srv = identifyAll g (srv, [], False) (currentDynamicPerceptWrappers srv)"


text \<open>
  The candidates accumulated for an observing agent over a list of observed teammates, for
  a fixed table of percepts.
\<close>

fun accumulated :: "geometry \<Rightarrow> (string \<times> percept) list \<Rightarrow> string \<Rightarrow> percept \<Rightarrow> Coordinate list
    \<Rightarrow> (string \<times> Coordinate) list" where
  "accumulated g percepts agentId dynamicPercept [] = []"
| "accumulated g percepts agentId dynamicPercept (otherAgentCoord # rest) =
     (case newCandidates g percepts agentId dynamicPercept otherAgentCoord of
        Inl e \<Rightarrow> []
      | Inr found \<Rightarrow> found) @ accumulated g percepts agentId dynamicPercept rest"


text \<open>
  The checks of a pass at which the candidate list holds exactly one entry, as a list of
  (observing agent, its percept, the single candidate), in the order of the pass. The
  candidates depend on the table of percepts only, which the pass does not change.
  \<open>applyChecks\<close> performs what the pass does at such checks, one after the other.
\<close>

type_synonym check = "string \<times> percept \<times> (string \<times> Coordinate)"

fun checksOf :: "geometry \<Rightarrow> (string \<times> percept) list \<Rightarrow> string \<Rightarrow> percept
    \<Rightarrow> (string \<times> Coordinate) list \<Rightarrow> Coordinate list \<Rightarrow> check list" where
  "checksOf g percepts agentId dynamicPercept canditates [] = []"
| "checksOf g percepts agentId dynamicPercept canditates (otherAgentCoord # rest) =
     (let canditates' = canditates @
            (case newCandidates g percepts agentId dynamicPercept otherAgentCoord of
               Inl e \<Rightarrow> []
             | Inr found \<Rightarrow> found)
      in (if length canditates' = 1 then [(agentId, dynamicPercept, hd canditates')] else [])
         @ checksOf g percepts agentId dynamicPercept canditates' rest)"

definition uniqueChecks :: "geometry \<Rightarrow> (string \<times> percept) list \<Rightarrow> (string \<times> percept) list
    \<Rightarrow> check list" where
  "uniqueChecks g percepts entries =
     concat (map (\<lambda>entry. case unknownOtherAgents g (snd entry) of
                             Inl e \<Rightarrow> []
                           | Inr coords \<Rightarrow> checksOf g percepts (fst entry) (snd entry) [] coords)
                 entries)"

fun applyChecks :: "geometry \<Rightarrow> passState \<Rightarrow> check list \<Rightarrow> py_error + passState" where
  "applyChecks g st [] = Inr st"
| "applyChecks g st (chk # rest) =
     (case chk of (agentId, dynamicPercept, canditate) \<Rightarrow>
        bindE (getMap (fst st) agentId) (\<lambda>currentAgentMap.
        bindE (applyIdentification g st agentId dynamicPercept currentAgentMap canditate)
          (\<lambda>st'. applyChecks g st' rest)))"


section \<open>The path planner's search\<close>

type_synonym rotateDict = "(Direction \<times> bool) list"

definition passableValue :: "geometry \<Rightarrow> DynamicMap \<Rightarrow> Coordinate \<Rightarrow> int \<Rightarrow> bool \<Rightarrow> Coordinate \<Rightarrow> bool" where
  "passableValue g m startCoordinate vision ignoreMarker c =
     (mapValueEnumAt m c ignoreMarker False \<in> set [EMPTY, UNKNOWN, BLOCK, OBSTACLE] \<or>
      (mapValueEnumAt m c ignoreMarker False \<in> set [AGENT, MARKER] \<and>
       manhattanDistance g startCoordinate c > vision))"

definition isCoordinatePassableForSingleAttachment :: "geometry \<Rightarrow> DynamicMap \<Rightarrow> Coordinate \<Rightarrow> Coordinate
    \<Rightarrow> Coordinate \<Rightarrow> bool \<Rightarrow> Coordinate \<Rightarrow> int \<Rightarrow> bool \<times> rotateDict option" where
  "isCoordinatePassableForSingleAttachment g m startCoordinate currentCoordinate nextCoordinate
       ignoreMarker attachedCoord vision =
     (let moveDirection = getDirection g currentCoordinate nextCoordinate;
          faceDirection = getDirection g attachedCoord (origo g)
      in if isSameDirection moveDirection faceDirection then (True, None)
         else if isOppositeDirection moveDirection faceDirection
         then (let frontCoord = getMovedCoord g currentCoordinate [faceDirection] True;
                   leftDirection = fst (getAdjacentDirections moveDirection);
                   rightDirection = snd (getAdjacentDirections moveDirection);
                   leftCheckableCoords = [getMovedCoord g currentCoordinate [leftDirection] True, frontCoord];
                   rightCheckableCoords = [getMovedCoord g currentCoordinate [rightDirection] True, frontCoord];
                   canRotateToLeftDirection =
                     list_all (passableValue g m startCoordinate vision ignoreMarker) leftCheckableCoords;
                   canRotateToRightDirection =
                     list_all (passableValue g m startCoordinate vision ignoreMarker) rightCheckableCoords
               in (canRotateToLeftDirection \<or> canRotateToRightDirection,
                   Some (AList.update rightDirection canRotateToRightDirection
                           [(leftDirection, canRotateToLeftDirection)])))
         else (let rotateToCoordinate = getMovedCoord g currentCoordinate
                       [getDirection g nextCoordinate currentCoordinate] True;
                   canRotate = passableValue g m startCoordinate vision ignoreMarker rotateToCoordinate
               in (canRotate, Some [(moveDirection, canRotate)])))"

definition isCoordinatePassableForMultipleAttachements :: "geometry \<Rightarrow> DynamicMap \<Rightarrow> Coordinate \<Rightarrow> Coordinate
    \<Rightarrow> bool \<Rightarrow> Coordinate list \<Rightarrow> bool" where
  "isCoordinatePassableForMultipleAttachements g m currentCoordinate nextCoordinate ignoreMarker attachedCoords =
     (let passableCoordsForAttacheds =
            map (\<lambda>coord. getShiftedCoordinate g currentCoordinate coord True) attachedCoords
            @ [currentCoordinate]
      in list_all (\<lambda>coord.
            getShiftedCoordinate g nextCoordinate coord True \<in> set passableCoordsForAttacheds \<or>
            mapValueEnumAt m (getShiftedCoordinate g nextCoordinate coord True) ignoreMarker False
              \<in> set [EMPTY, UNKNOWN]) attachedCoords)"

definition isCoordinatePassable :: "geometry \<Rightarrow> DynamicMap \<Rightarrow> Coordinate \<Rightarrow> Coordinate \<Rightarrow> Coordinate \<Rightarrow> int
    \<Rightarrow> bool \<Rightarrow> Coordinate list \<Rightarrow> bool \<times> Coordinate list \<times> rotateDict option" where
  "isCoordinatePassable g m startCoordinate currentCoordinate nextCoordinate vision ignoreMarker attachedCoords =
     (let coordValue = mapValueEnumAt m nextCoordinate True False;
          passableForAgent =
            (coordValue \<in> set [EMPTY, OBSTACLE, UNKNOWN, BLOCK] \<or>
             (coordValue = MARKER \<and>
                (ignoreMarker \<or> manhattanDistance g startCoordinate nextCoordinate > vision)) \<or>
             (coordValue = AGENT \<and> manhattanDistance g startCoordinate nextCoordinate > vision))
      in if \<not> passableForAgent then (False, attachedCoords, None)
         else (case attachedCoords of
                 [] \<Rightarrow> (True, attachedCoords, None)
               | [attached0] \<Rightarrow>
                   (let attachment = copy g attached0 False;
                        (passable, rotateDict) =
                           isCoordinatePassableForSingleAttachment g m startCoordinate currentCoordinate
                             nextCoordinate ignoreMarker attachment vision;
                        attachment' =
                          (if passable \<and> rotateDict \<noteq> None
                           then (let moveDirection = getDirection g currentCoordinate nextCoordinate;
                                     faceDirection = getDirection g attachment (origo g)
                                 in if isOppositeDirection moveDirection faceDirection
                                    then getRotatedRelCoord (getRotatedRelCoord attachment CLOCKWISE) CLOCKWISE
                                    else getRotatedRelCoord attachment
                                           (getRotateDirection attachment moveDirection))
                           else attachment)
                    in (passable, [attachment'], rotateDict))
               | _ \<Rightarrow>
                   (isCoordinatePassableForMultipleAttachements g m currentCoordinate nextCoordinate
                      ignoreMarker attachedCoords, attachedCoords, None)))"

type_synonym neighbor = "Coordinate \<times> Coordinate list \<times> rotateDict option"

text \<open>
  \<^verbatim>\<open>getNeighbors\<close> ends with \<^verbatim>\<open>random.shuffle\<close>; the permutation it picks is a parameter
  of the model (indexed by the iteration of the search in which it is called).
\<close>

definition passableNeighbors :: "geometry \<Rightarrow> DynamicMap \<Rightarrow> Coordinate \<Rightarrow> Coordinate \<Rightarrow> int \<Rightarrow> bool
    \<Rightarrow> Coordinate list \<Rightarrow> neighbor list" where
  "passableNeighbors g m startCoordinate currentCoordinate vision ignoreMarker attachedCoords =
     concat (map (\<lambda>nextCoordinate.
               case isCoordinatePassable g m startCoordinate currentCoordinate nextCoordinate vision
                      ignoreMarker attachedCoords of
                 (passable, attacheds, rotateDict) \<Rightarrow>
                   if passable then [(nextCoordinate, attacheds, rotateDict)] else [])
             (neighbors g currentCoordinate True 1 0))"

definition getNeighbors :: "(neighbor list \<Rightarrow> neighbor list) \<Rightarrow> geometry \<Rightarrow> DynamicMap \<Rightarrow> Coordinate
    \<Rightarrow> Coordinate \<Rightarrow> int \<Rightarrow> bool \<Rightarrow> Coordinate list \<Rightarrow> neighbor list" where
  "getNeighbors shuffle g m startCoordinate currentCoordinate vision ignoreMarker attachedCoords =
     shuffle (passableNeighbors g m startCoordinate currentCoordinate vision ignoreMarker attachedCoords)"


text \<open>
  \<^verbatim>\<open>PriorityQueue\<close>: the queue is a list of nodes (value, priority) in ascending priority;
  \<^verbatim>\<open>insert\<close> puts a node after every node whose priority is not larger, \<^verbatim>\<open>pop\<close> removes the
  head.
\<close>

type_synonym PriorityQueue = "(Coordinate \<times> real) list"

fun insertNode :: "Coordinate \<times> real \<Rightarrow> PriorityQueue \<Rightarrow> PriorityQueue" where
  "insertNode node [] = [node]"
| "insertNode node (e # es) =
     (if snd node \<ge> snd e then e # insertNode node es else node # e # es)"

text \<open>
  The local variables of \<^verbatim>\<open>AStarBody\<close>. Dictionaries are association lists in insertion order
  (\<^verbatim>\<open>fScore.keys()\<close> is iterated in that order). \<^verbatim>\<open>math.inf\<close> is \<open>None\<close> where a cost is
  returned.
\<close>

record AStarState =
  cameFrom :: "(Coordinate \<times> Coordinate) list"
  gScore :: "(Coordinate \<times> real) list"
  fScore :: "(Coordinate \<times> real) list"
  openSet :: PriorityQueue
  attachedSet :: "(Coordinate \<times> Coordinate list) list"
  rotations :: "(Coordinate \<times> Direction option) list"
  currentCoord :: "Coordinate option"

definition initialState :: "geometry \<Rightarrow> Coordinate \<Rightarrow> Coordinate \<Rightarrow> Coordinate list \<Rightarrow> AStarState" where
  "initialState g start endCoord attachedCoordinates =
     \<lparr> cameFrom = [],
       gScore = [(start, 0)],
       fScore = [(start, heuristicCost g start endCoord)],
       openSet = insertNode (start, heuristicCost g start endCoord) [],
       attachedSet = [(start, attachedCoordinates)],
       rotations = [],
       currentCoord = None \<rparr>"

text \<open>
  The body of the \<^verbatim>\<open>for\<close> loop over the neighbours of the popped coordinate.
\<close>

definition relaxNeighbor :: "geometry \<Rightarrow> DynamicMap \<Rightarrow> Coordinate \<Rightarrow> real \<Rightarrow> real \<Rightarrow> int \<Rightarrow> Coordinate
    \<Rightarrow> AStarState \<Rightarrow> neighbor \<Rightarrow> py_error + AStarState" where
  "relaxNeighbor g m endCoord agentTravelTime clearCost clearSuccessTime cur st nb =
     (case nb of (neighbor, attachedList, rotateDict) \<Rightarrow>
        bindE (lookupE (attachedSet st) cur) (\<lambda>attachedCur.
        bindE (distanceCost g m cur neighbor agentTravelTime clearSuccessTime clearCost
                 attachedCur rotateDict) (\<lambda>(dCost, rotateDirection).
        bindE (lookupE (gScore st) cur) (\<lambda>gCur.
          let tentativeGScore = gCur + dCost
          in if (case map_of (gScore st) neighbor of
                   None \<Rightarrow> True
                 | Some gNeighbor \<Rightarrow> tentativeGScore < gNeighbor)
             then Inr (st \<lparr> cameFrom := AList.update neighbor cur (cameFrom st),
                            attachedSet := AList.update neighbor attachedList (attachedSet st),
                            rotations := AList.update neighbor rotateDirection (rotations st),
                            gScore := AList.update neighbor tentativeGScore (gScore st),
                            fScore := AList.update neighbor
                               (tentativeGScore + heuristicCost g neighbor endCoord) (fScore st),
                            openSet := insertNode
                               (neighbor, tentativeGScore + heuristicCost g neighbor endCoord)
                               (openSet st) \<rparr>)
             else Inr st))))"

fun relaxAll :: "geometry \<Rightarrow> DynamicMap \<Rightarrow> Coordinate \<Rightarrow> real \<Rightarrow> real \<Rightarrow> int \<Rightarrow> Coordinate
    \<Rightarrow> AStarState \<Rightarrow> neighbor list \<Rightarrow> py_error + AStarState" where
  "relaxAll g m endCoord agentTravelTime clearCost clearSuccessTime cur st [] = Inr st"
| "relaxAll g m endCoord agentTravelTime clearCost clearSuccessTime cur st (nb # nbs) =
     (case relaxNeighbor g m endCoord agentTravelTime clearCost clearSuccessTime cur st nb of
        Inl e \<Rightarrow> Inl e
      | Inr st' \<Rightarrow> relaxAll g m endCoord agentTravelTime clearCost clearSuccessTime cur st' nbs)"

text \<open>
  The \<^verbatim>\<open>while\<close> loop. It leaves either through the \<^verbatim>\<open>return\<close> at the goal (\<open>Reached\<close>) or
  because its condition fails (\<open>Stopped\<close>, with the iteration count at that moment). The
  shuffle of the neighbours is a parameter, given the iteration in which it happens.
\<close>

datatype loopExit = Reached Coordinate AStarState | Stopped int AStarState

function astarLoop :: "(int \<Rightarrow> neighbor list \<Rightarrow> neighbor list) \<Rightarrow> geometry \<Rightarrow> DynamicMap \<Rightarrow> Coordinate
    \<Rightarrow> Coordinate \<Rightarrow> real \<Rightarrow> real \<Rightarrow> int \<Rightarrow> int \<Rightarrow> int \<Rightarrow> bool \<Rightarrow> int \<Rightarrow> AStarState
    \<Rightarrow> py_error + loopExit" where
  "astarLoop shuffle g m start endCoord agentTravelTime clearCost clearSuccessTime maxIteration
       agentVision ignoreMarker iterationCount st =
     (if iterationCount \<le> maxIteration \<and> openSet st \<noteq> []
      then (let cur = fst (hd (openSet st));
                st1 = st \<lparr> openSet := tl (openSet st), currentCoord := Some cur \<rparr>
            in if cur = endCoord then Inr (Reached cur st1)
               else (case lookupE (attachedSet st1) cur of
                       Inl e \<Rightarrow> Inl e
                     | Inr attachedCur \<Rightarrow>
                        (case relaxAll g m endCoord agentTravelTime clearCost clearSuccessTime cur st1
                                (getNeighbors (shuffle iterationCount) g m start cur agentVision
                                   ignoreMarker attachedCur) of
                           Inl e \<Rightarrow> Inl e
                         | Inr st2 \<Rightarrow>
                             astarLoop shuffle g m start endCoord agentTravelTime clearCost
                               clearSuccessTime maxIteration agentVision ignoreMarker
                               (iterationCount + 1) st2)))
      else Inr (Stopped iterationCount st))"
  by pat_completeness auto
termination
  by (relation "measure (\<lambda>(shuffle, g, m, start, endCoord, agentTravelTime, clearCost,
        clearSuccessTime, maxIteration, agentVision, ignoreMarker, iterationCount, st).
        nat (maxIteration + 1 - iterationCount))") auto

declare astarLoop.simps [simp del]

text \<open>
  Python's \<^verbatim>\<open>min(iterable, key = f)\<close>: the first element with the least key, \<^verbatim>\<open>ValueError\<close>
  (here \<open>None\<close>) on an empty iterable.
\<close>

definition minBy :: "('a \<Rightarrow> real) \<Rightarrow> 'a list \<Rightarrow> 'a option" where
  "minBy f xs =
     (case xs of
        [] \<Rightarrow> None
      | x # rest \<Rightarrow> Some (foldl (\<lambda>best y. if f y < f best then y else best) x rest))"

definition closestCoordOf :: "geometry \<Rightarrow> Coordinate \<Rightarrow> AStarState \<Rightarrow> Coordinate option" where
  "closestCoordOf g endCoord st =
     minBy (\<lambda>coord. heuristicCost g coord endCoord)
       (filter (\<lambda>coord. coord \<in> set (map fst (cameFrom st))) (map fst (fScore st)))"

type_synonym searchResult =
  "real option \<times> (Coordinate \<times> Coordinate) list \<times> Coordinate option \<times> (Coordinate \<times> Direction option) list"

definition AStarBody :: "(int \<Rightarrow> neighbor list \<Rightarrow> neighbor list) \<Rightarrow> geometry \<Rightarrow> DynamicMap \<Rightarrow> Coordinate
    \<Rightarrow> Coordinate \<Rightarrow> real \<Rightarrow> real \<Rightarrow> int \<Rightarrow> int \<Rightarrow> int \<Rightarrow> bool \<Rightarrow> Coordinate list
    \<Rightarrow> py_error + searchResult" where
  "AStarBody shuffle g m start endCoord agentTravelTime clearCost clearSuccessTime maxIteration
       agentVision ignoreMarker attachedCoordinates =
     (if start = endCoord then Inr (None, [], None, [])
      else (case astarLoop shuffle g m start endCoord agentTravelTime clearCost clearSuccessTime
                   maxIteration agentVision ignoreMarker 0
                   (initialState g start endCoord attachedCoordinates) of
              Inl e \<Rightarrow> Inl e
            | Inr (Reached cur st) \<Rightarrow>
                bindE (lookupE (gScore st) cur) (\<lambda>cost.
                  Inr (Some cost, cameFrom st, Some cur, rotations st))
            | Inr (Stopped iterationCount st) \<Rightarrow>
                if openSet st \<noteq> []
                then (case closestCoordOf g endCoord st of
                        None \<Rightarrow> Inl ValueError
                      | Some closestCoord \<Rightarrow>
                          bindE (lookupE (gScore st) closestCoord) (\<lambda>cost.
                            Inr (Some cost, cameFrom st, Some closestCoord, rotations st)))
                else Inr (None, cameFrom st, None, rotations st)))"


section \<open>From the search result to an action\<close>

datatype AgentAction = SkipAction | MoveAction "Direction list" | ClearAction Coordinate
  | RotateAction RotateDirection

text \<open>
  The entries of the local list \<^verbatim>\<open>actions\<close> of \<^verbatim>\<open>getAction\<close>: the pairs
  \<^verbatim>\<open>(AgentActionEnum.CLEAR, relCoord)\<close> and \<^verbatim>\<open>(AgentActionEnum.MOVE, direction)\<close>.
\<close>

datatype plannedAction = CLEAR Coordinate | MOVE Direction

fun isClear :: "plannedAction \<Rightarrow> bool" where
  "isClear (CLEAR c) = True"
| "isClear (MOVE d) = False"

fun directionsOf :: "plannedAction list \<Rightarrow> Direction list" where
  "directionsOf [] = []"
| "directionsOf (MOVE d # rest) = d # directionsOf rest"
| "directionsOf (CLEAR c # rest) = directionsOf rest"

text \<open>
  The loop \<^verbatim>\<open>while current in cameFrom\<close>. It follows the predecessor links and does not end
  when they form a cycle. A walk without a repetition passes at most as many keys as
  \<^verbatim>\<open>cameFrom\<close> has, so the model gives the loop that many rounds (the first argument) and
  returns \<open>None\<close>, for a loop that runs forever, when they do not suffice.
\<close>

fun walkBack :: "nat \<Rightarrow> geometry \<Rightarrow> DynamicMap \<Rightarrow> (Coordinate \<times> Coordinate) list \<Rightarrow> Coordinate list
    \<Rightarrow> Coordinate \<Rightarrow> Coordinate \<Rightarrow> plannedAction list \<Rightarrow> (plannedAction list \<times> Coordinate) option" where
  "walkBack 0 g m cameFromDict attachedCoordinates cur prev actions =
     (if cur \<in> set (map fst cameFromDict) then None else Some (actions, cur))"
| "walkBack (Suc rounds) g m cameFromDict attachedCoordinates cur prev actions =
     (if cur \<in> set (map fst cameFromDict)
      then (let mapValue = mapValueEnumAt m cur False False;
                relCoord = getRelativeCoordinate g prev cur;
                actions' = (if mapValue = OBSTACLE \<or>
                               (mapValue = BLOCK \<and> relCoord \<notin> set attachedCoordinates)
                            then CLEAR relCoord # actions
                            else MOVE (getDirection g prev cur) # actions)
            in walkBack rounds g m cameFromDict attachedCoordinates prev
                 (case map_of cameFromDict prev of Some p \<Rightarrow> p | None \<Rightarrow> prev) actions')
      else Some (actions, cur))"

definition getActionAtSimpleRotating :: "geometry \<Rightarrow> DynamicMap \<Rightarrow> Coordinate \<Rightarrow> Coordinate
    \<Rightarrow> Direction list \<Rightarrow> py_error + AgentAction" where
  "getActionAtSimpleRotating g m cur attachedCoord directions =
     (case directions of
        [] \<Rightarrow> Inl IndexError
      | d0 # ds \<Rightarrow>
         (let attachedShifted = getMovedCoord g (getShiftedCoordinate g cur attachedCoord True) [d0] True
          in if mapValueEnumAt m attachedShifted True False \<in> set [EMPTY, UNKNOWN]
             then (if length directions = 2 \<and>
                      mapValueEnumAt m (getMovedCoord g attachedShifted [directions ! 1] True) True False
                        \<in> set [EMPTY, UNKNOWN]
                   then Inr (MoveAction directions)
                   else Inr (MoveAction [d0]))
             else (let blockingAdjacentCoord = getMovedCoord g cur [opposite d0] True
                   in if mapValueEnumAt m blockingAdjacentCoord False False \<in> set [OBSTACLE, BLOCK]
                      then Inr (ClearAction (getRelativeCoordinate g cur blockingAdjacentCoord))
                      else Inr (RotateAction (getRotateDirection attachedCoord d0)))))"

definition getActionAtOppositeRotating :: "geometry \<Rightarrow> DynamicMap \<Rightarrow> Coordinate \<Rightarrow> Coordinate
    \<Rightarrow> (Coordinate \<times> Direction option) list \<Rightarrow> Direction list \<Rightarrow> py_error + AgentAction" where
  "getActionAtOppositeRotating g m cur attachedCoord rotateDict directions =
     (case directions of
        [] \<Rightarrow> Inl IndexError
      | d0 # ds \<Rightarrow>
         (let attachedShifted = getMovedCoord g (getShiftedCoordinate g cur attachedCoord True) [d0] True
          in if mapValueEnumAt m attachedShifted True False \<in> set [EMPTY, UNKNOWN]
             then (if length directions = 2 \<and>
                      mapValueEnumAt m (getMovedCoord g attachedShifted [directions ! 1] True) True False
                        \<in> set [EMPTY, UNKNOWN]
                   then Inr (MoveAction directions)
                   else Inr (MoveAction [d0]))
             else (case map_of rotateDict (getMovedCoord g cur [d0] True) of
                     None \<Rightarrow> Inl KeyError
                   | Some None \<Rightarrow> Inl AttributeError
                   | Some (Some directionToRotate) \<Rightarrow>
                      (let blockingAdjacentCoord = getMovedCoord g cur [opposite directionToRotate] True
                       in if mapValueEnumAt m blockingAdjacentCoord False False \<in> set [OBSTACLE, BLOCK]
                          then Inr (ClearAction (getRelativeCoordinate g cur blockingAdjacentCoord))
                          else Inr (RotateAction (getRotateDirection attachedCoord directionToRotate))))))"

text \<open>
  \<^verbatim>\<open>getAction\<close>; \<open>None\<close> when its first loop does not end.
\<close>

definition getAction :: "geometry \<Rightarrow> DynamicMap \<Rightarrow> (Coordinate \<times> Coordinate) list \<Rightarrow> Coordinate \<Rightarrow> int
    \<Rightarrow> Coordinate list \<Rightarrow> (Coordinate \<times> Direction option) list \<Rightarrow> (py_error + AgentAction) option" where
  "getAction g m cameFromDict cur maxSteps attachedCoordinates rotateDict =
     (case map_of cameFromDict cur of
        None \<Rightarrow> Some (Inl KeyError)
      | Some prev \<Rightarrow>
         (case walkBack (length cameFromDict) g m cameFromDict attachedCoordinates cur prev [] of
            None \<Rightarrow> None
          | Some (actions, rootCoord) \<Rightarrow>
              Some (case actions of
                 [] \<Rightarrow> Inl IndexError
               | CLEAR relCoord # rest \<Rightarrow> Inr (ClearAction relCoord)
               | MOVE d # rest \<Rightarrow>
                  (let directions = directionsOf
                         (takeWhile (\<lambda>a. \<not> isClear a) (take (nat maxSteps) actions))
                   in case attachedCoordinates of
                        [attachedCoord] \<Rightarrow>
                          (let faceDirection = getDirection g attachedCoord (origo g)
                           in case directions of
                                [] \<Rightarrow> Inl IndexError
                              | d0 # ds \<Rightarrow>
                                  if isSameDirection faceDirection d0
                                  then (if length directions = 1 \<or>
                                           isSameDirection faceDirection (directions ! 1)
                                        then Inr (MoveAction directions)
                                        else Inr (MoveAction [d0]))
                                  else if isOppositeDirection faceDirection d0
                                  then getActionAtOppositeRotating g m rootCoord attachedCoord rotateDict
                                         directions
                                  else getActionAtSimpleRotating g m rootCoord attachedCoord directions)
                      | _ \<Rightarrow> Inr (MoveAction directions)))))"

text \<open>
  \<^verbatim>\<open>findNextAction\<close>, with the fields of \<^verbatim>\<open>PathFinderData\<close> as arguments. The division by
  zero of the first three assignments is the one \<^verbatim>\<open>calculateTravelConstantCosts\<close> repeats.
\<close>

definition findNextAction :: "(int \<Rightarrow> neighbor list \<Rightarrow> neighbor list) \<Rightarrow> geometry \<Rightarrow> DynamicMap \<Rightarrow> Coordinate
    \<Rightarrow> int \<Rightarrow> int \<Rightarrow> int \<Rightarrow> int \<Rightarrow> real \<Rightarrow> real \<Rightarrow> int \<Rightarrow> int \<Rightarrow> Coordinate list \<Rightarrow> Coordinate \<Rightarrow> bool
    \<Rightarrow> (py_error + AgentAction) option" where
  "findNextAction shuffle g m start agentSpeed clearEnergyCost agentEnergy agentMaxEnergy clearChance
       clearConstantCost maxIteration agentVision attachedCoordinates endCoord ignoreMarker =
     (case calculateTravelConstantCosts agentSpeed clearEnergyCost agentEnergy agentMaxEnergy
             clearChance clearConstantCost of
        Inl e \<Rightarrow> Some (Inl e)
      | Inr (agentTravelTime, clearCost, clearSuccessTime) \<Rightarrow>
         (case AStarBody shuffle g m start endCoord agentTravelTime clearCost clearSuccessTime
                 maxIteration agentVision ignoreMarker attachedCoordinates of
            Inl e \<Rightarrow> Some (Inl e)
          | Inr (cost, cameFromDict, endCoordinate, rotateDict) \<Rightarrow>
             (case endCoordinate of
                Some c \<Rightarrow> getAction g m cameFromDict c agentSpeed attachedCoordinates rotateDict
              | None \<Rightarrow> Some (Inr SkipAction))))"


section \<open>Example scenarios\<close>

text \<open>Concrete maps and updates on which the theorems below are instantiated.\<close>

definition emptyMap :: DynamicMap where
  "emptyMap = \<lparr>mapId = 1, markerPurgeInterval = 10, unknownCoordSearchMaxIter = 60,
     agentCoordinates = [], agentStartingCoordinates = [], agentCoordReservations = [],
     store = [], markers = [], dispenserMap = [], roleZones = [], goalZones = []\<rparr>"

definition markedMap :: DynamicMap where
  "markedMap = emptyMap\<lparr>
     store := [(Coordinate 0 0, MapValue AGENT ''A'' 3), (Coordinate 1 0, MapValue EMPTY [] 3)],
     markers := [(Coordinate 1 0, MapValue MARKER ''ci'' 3), (Coordinate 2 0, MapValue MARKER ''ci'' 12)]\<rparr>"

definition markerUpdate :: MapUpdateData where
  "markerUpdate = \<lparr>udThings = [(Coordinate 0 0, MapValue AGENT ''A'' 14)],
     udMarkers = [(Coordinate 3 0, MapValue MARKER ''ci'' 14)], udDispensers = [],
     udGoalZones = [], udRoleZones = []\<rparr>"

definition g10 :: geometry where
  "g10 = \<lparr>maxWidth = Some 10, maxHeight = Some 10\<rparr>"

definition gNone :: geometry where
  "gNone = \<lparr>maxWidth = None, maxHeight = None\<rparr>"


definition emptyServer :: MapServer where
  "emptyServer = \<lparr>aliasis = [], maps = [], nextMapId = 0, gridWidth = None, gridHeight = None,
     mapUnknownCoordSearchMaxIter = 60, currentDynamicPerceptWrappers = []\<rparr>"






definition mapA :: DynamicMap where
  "mapA = emptyMap\<lparr>
     agentCoordinates := [(''A'', Coordinate 0 0)],
     store := [(Coordinate 3 0, MapValue OBSTACLE [] 5), (Coordinate 0 0, MapValue AGENT ''A'' 5)]\<rparr>"

definition mapB :: DynamicMap where
  "mapB = emptyMap\<lparr>
     mapId := 2,
     agentCoordinates := [(''B'', Coordinate 1 0)],
     store := [(Coordinate 0 0, MapValue EMPTY [] 3), (Coordinate 1 0, MapValue EMPTY [] 3),
               (Coordinate 2 0, MapValue EMPTY [] 3)],
     markers := [(Coordinate 2 0, MapValue MARKER ''ci'' 3)],
     dispenserMap := [(''b0'', [Coordinate 0 0])]\<rparr>"

definition mergedAB :: DynamicMap where
  "mergedAB = fst (merge gNone mapA mapB (Coordinate 3 0) (Coordinate 1 0))"





definition obstacleMap :: DynamicMap where
  "obstacleMap = emptyMap\<lparr>
     store := [(Coordinate 0 0, MapValue AGENT ''A'' 1), (Coordinate 1 0, MapValue OBSTACLE [] 1),
               (Coordinate 0 1, MapValue AGENT ''A'' 1), (Coordinate 0 (- 1), MapValue AGENT ''A'' 1)]\<rparr>"


definition eastPath :: "pathStep list" where
  "eastPath = [(Coordinate 1 0, [], None), (Coordinate 2 0, [], None)]"


definition zoneMap :: DynamicMap where
  "zoneMap = emptyMap\<lparr>goalZones := [Coordinate 0 (- 3), Coordinate 0 0]\<rparr>"

definition zoneMapY :: DynamicMap where
  "zoneMapY = fst (tryReserveCloserGoalZoneForTask gNone zoneMap ''Y'' None (Coordinate 0 (- 3)) [Coordinate 0 1])"

definition zoneMapXY :: DynamicMap where
  "zoneMapXY = fst (tryReserveCloserGoalZoneForTask gNone zoneMapY ''X'' None (Coordinate 0 0) [Coordinate 0 1])"


text \<open>
  Three teammates: \<open>A\<close> sees \<open>B\<close> one cell east and \<open>C\<close> one cell south; each owns its own
  map so far.
\<close>

definition teamAgent :: "MapValue" where
  "teamAgent = MapValue AGENT ''T'' 1"

definition perceptA :: "(Coordinate \<times> MapValue) list" where
  "perceptA = [(Coordinate 0 0, teamAgent), (Coordinate 1 0, teamAgent), (Coordinate 0 1, teamAgent)]"

definition perceptB :: "(Coordinate \<times> MapValue) list" where
  "perceptB = [(Coordinate 0 0, teamAgent), (Coordinate (- 1) 0, teamAgent)]"

definition perceptC :: "(Coordinate \<times> MapValue) list" where
  "perceptC = [(Coordinate 0 0, teamAgent), (Coordinate 0 (- 1), teamAgent)]"

definition agentMap :: "int \<Rightarrow> string \<Rightarrow> DynamicMap" where
  "agentMap i a = emptyMap\<lparr>mapId := i, agentCoordinates := [(a, Coordinate 0 0)],
     agentStartingCoordinates := [(a, Coordinate 0 0)]\<rparr>"

definition teamServer :: MapServer where
  "teamServer = emptyServer\<lparr>
     aliasis := [(''A'', 1), (''B'', 2), (''C'', 3)],
     maps := [(1, agentMap 1 ''A''), (2, agentMap 2 ''B''), (3, agentMap 3 ''C'')],
     nextMapId := 3,
     currentDynamicPerceptWrappers := [(''A'', perceptA), (''B'', perceptB), (''C'', perceptC)]\<rparr>"


definition pairedServer :: MapServer where
  "pairedServer = teamServer\<lparr>
     aliasis := [(''A'', 1), (''B'', 1), (''C'', 3)],
     maps := [(1, (agentMap 1 ''A'')\<lparr>
                    agentCoordinates := [(''A'', Coordinate 0 0), (''B'', Coordinate 1 0)],
                    agentStartingCoordinates := [(''A'', Coordinate 0 0), (''B'', Coordinate 1 0)]\<rparr>),
              (3, agentMap 3 ''C'')]\<rparr>"

text \<open>The server after the whole pass: all three agents share the map of \<open>C\<close>.\<close>

definition mergedServer :: MapServer where
  "mergedServer = teamServer\<lparr>
     aliasis := [(''A'', 3), (''B'', 3), (''C'', 3)],
     maps := [(3, (agentMap 3 ''C'')\<lparr>
                    agentCoordinates := [(''C'', Coordinate 0 0), (''A'', Coordinate 0 (- 1)),
                                         (''B'', Coordinate 1 (- 1))],
                    agentStartingCoordinates := [(''C'', Coordinate 0 0), (''A'', Coordinate 0 (- 1)),
                                                 (''B'', Coordinate 1 (- 1))]\<rparr>)]\<rparr>"


section \<open>Totality of the map query\<close>

lemma getDispenserMapValueByCoord_total:
  assumes "key \<in> set (getAllDispenserCoords dm)"
  shows "\<exists>t. getDispenserMapValueByCoord dm key = Inr (MapValue DISPENSER t 0)"
proof -
  from assms obtain t ds where "(t, ds) \<in> set dm" "key \<in> set ds"
    by (auto simp: getAllDispenserCoords_def)
  then have "filter (\<lambda>(type, ds). key \<in> set ds) dm \<noteq> []"
    by (auto simp: filter_empty_conv)
  then show ?thesis
    by (auto simp: getDispenserMapValueByCoord_def split: list.splits)
qed

text \<open>
  C10. \<^verbatim>\<open>DynamicMap.getMapValue\<close> never fails: for every map, coordinate and flag pair it
  returns a map value (the only indexing it does, in the dispenser lookup, happens on a
  non-empty list). For a coordinate that is in none of the cell store, the marker index
  and the dispenser index, the value is \<^verbatim>\<open>MapValue(UNKNOWN, "", 0)\<close>.
\<close>

theorem getMapValue_total:
  "(\<exists>v. getMapValue m key needMarker needDispenser = Inr v) \<and>
   (key \<notin> fst ` set (store m) \<and> key \<notin> fst ` set (markers m) \<and>
    key \<notin> set (getAllDispenserCoords (dispenserMap m))
      \<longrightarrow> getMapValue m key needMarker needDispenser = Inr (MapValue UNKNOWN '''' 0))"
proof
  show "\<exists>v. getMapValue m key needMarker needDispenser = Inr v"
    using getDispenserMapValueByCoord_total [of key "dispenserMap m"]
    by (auto simp: getMapValue_def Let_def split: option.splits)
next
  show "key \<notin> fst ` set (store m) \<and> key \<notin> fst ` set (markers m) \<and>
        key \<notin> set (getAllDispenserCoords (dispenserMap m))
        \<longrightarrow> getMapValue m key needMarker needDispenser = Inr (MapValue UNKNOWN '''' 0)"
    by (auto simp: getMapValue_def map_of_eq_None_iff [symmetric] split: option.splits)
qed


theorem getMapValue_total_witness:
  "Coordinate 5 5 \<notin> fst ` set (store markedMap) \<and>
   Coordinate 5 5 \<notin> fst ` set (markers markedMap) \<and>
   Coordinate 5 5 \<notin> set (getAllDispenserCoords (dispenserMap markedMap)) \<and>
   getMapValue markedMap (Coordinate 5 5) True False = Inr (MapValue UNKNOWN [] 0)"
  using getMapValue_total [of markedMap "Coordinate 5 5" True False]
  by (simp add: markedMap_def emptyMap_def getAllDispenserCoords_def)

section \<open>Marker expiry\<close>

lemma purge_step:
  assumes "distinct (map fst acc)"
  shows "(case map_of acc k of None \<Rightarrow> acc
          | Some mk \<Rightarrow> if step - simulationStep mk \<ge> i then AList.delete k acc else acc)
         = filter (\<lambda>(c, mk). c = k \<longrightarrow> step - simulationStep mk < i) acc"
proof (cases "map_of acc k")
  case None
  then have "\<forall>x \<in> set acc. fst x \<noteq> k"
    by (auto simp: map_of_eq_None_iff)
  then have "filter (\<lambda>(c, mk). c = k \<longrightarrow> step - simulationStep mk < i) acc = acc"
    by (auto simp: filter_id_conv)
  with None show ?thesis by simp
next
  case (Some mk)
  have u: "\<And>c v. (c, v) \<in> set acc \<Longrightarrow> c = k \<Longrightarrow> v = mk"
    using Some assms by (metis map_of_is_SomeI option.inject)
  show ?thesis
  proof (cases "step - simulationStep mk \<ge> i")
    case True
    have "filter (\<lambda>(k', _). k \<noteq> k') acc
          = filter (\<lambda>(c, mk). c = k \<longrightarrow> step - simulationStep mk < i) acc"
      by (rule filter_cong) (use u True in auto)
    with Some True show ?thesis by (simp add: AList.delete_eq)
  next
    case False
    have "filter (\<lambda>(c, mk). c = k \<longrightarrow> step - simulationStep mk < i) acc = acc"
      unfolding filter_id_conv using u False by auto
    with Some False show ?thesis by simp
  qed
qed

lemma purge_fold:
  "distinct (map fst acc) \<Longrightarrow>
   foldl (\<lambda>acc markerCoords.
              case map_of acc markerCoords of
                None \<Rightarrow> acc
              | Some mk \<Rightarrow> if step - simulationStep mk \<ge> i
                           then AList.delete markerCoords acc else acc) acc ks
   = filter (\<lambda>(c, mk). c \<in> set ks \<longrightarrow> step - simulationStep mk < i) acc"
proof (induction ks arbitrary: acc)
  case Nil
  then show ?case by simp
next
  case (Cons k ks)
  have d: "distinct (map fst (filter (\<lambda>(c, mk). c = k \<longrightarrow> step - simulationStep mk < i) acc))"
    using Cons.prems by (simp add: distinct_map_filter)
  show ?case
    apply (simp add: purge_step [OF Cons.prems] Cons.IH [OF d])
    apply (rule filter_cong) apply auto
    done
qed

lemma purgeMarkers_fresh:
  "distinct (map fst ms) \<Longrightarrow> (c, mk) \<in> set (purgeMarkers step i ms) \<Longrightarrow> step - simulationStep mk < i"
  unfolding purgeMarkers_def by (force simp add: purge_fold)

lemma distinct_update_fold:
  "distinct (map fst acc) \<Longrightarrow>
   distinct (map fst (foldl (\<lambda>acc (coord, mapValue). AList.update coord mapValue acc) acc xs))"
  by (induction xs arbitrary: acc) (auto simp: distinct_update)

lemma addThing_distinct:
  "distinct (map fst (markers (fst acc))) \<Longrightarrow> distinct (map fst (markers (fst (addThing ud acc e))))"
  by (auto simp: addThing_def Let_def distinct_delete split: option.splits)

lemma addThing_interval:
  "markerPurgeInterval (fst (addThing ud acc e)) = markerPurgeInterval (fst acc)"
  by (auto simp: addThing_def Let_def split: option.splits)

lemma addThing_fold_distinct:
  "distinct (map fst (markers (fst acc))) \<Longrightarrow>
   distinct (map fst (markers (fst (foldl (addThing ud) acc xs))))"
  by (induction xs arbitrary: acc) (auto simp: addThing_distinct)

lemma addThing_fold_interval:
  "markerPurgeInterval (fst (foldl (addThing ud) acc xs)) = markerPurgeInterval (fst acc)"
  by (induction xs arbitrary: acc) (auto simp: addThing_interval)

text \<open>
  C8. After \<^verbatim>\<open>DynamicMap.addRange(step, updateData)\<close> has returned, every marker that is
  still in the marker index was confirmed fewer than \<^verbatim>\<open>markerPurgeInterval\<close> steps before
  \<open>step\<close>; a marker whose age has reached the interval is therefore gone. The marker
  index is a dictionary, so its keys are distinct.
\<close>

theorem addRange_markers_fresh:
  assumes "distinct (map fst (markers m))"
    and "addRange step updateData m = Inr m'"
  shows "\<forall>(c, mk) \<in> set (markers m'). step - simulationStep mk < markerPurgeInterval m'"
proof -
  obtain m1 del where f: "foldl (addThing updateData) (m, []) (udThings updateData) = (m1, del)"
    by (cases "foldl (addThing updateData) (m, []) (udThings updateData)")
  have d1: "distinct (map fst (markers m1))"
    using addThing_fold_distinct [of "(m, [])" updateData "udThings updateData"] assms(1) f by simp
  let ?ms = "foldl (\<lambda>acc (coord, mapValue). AList.update coord mapValue acc)
                                  (markers m1) (udMarkers updateData)"
  have d2: "distinct (map fst ?ms)" using d1 by (rule distinct_update_fold)
  from assms(2) f have "markers m' = purgeMarkers step (markerPurgeInterval m1) ?ms"
     and "markerPurgeInterval m' = markerPurgeInterval m1"
    by (auto simp: addRange_def Let_def split: sum.splits)
  then show ?thesis using purgeMarkers_fresh [OF d2] by auto
qed


theorem addRange_markers_fresh_witness:
  "distinct (map fst (markers markedMap)) \<and>
   (\<exists>m'. addRange 14 markerUpdate markedMap = Inr m' \<and>
      markers m' = [(Coordinate 2 0, MapValue MARKER ''ci'' 12), (Coordinate 3 0, MapValue MARKER ''ci'' 14)] \<and>
      list_all (\<lambda>(c, mk). 14 - simulationStep mk < markerPurgeInterval m') (markers m'))"
proof -
  have d: "distinct (map fst (markers markedMap))"
    by (simp add: markedMap_def emptyMap_def)
  have r: "addRange 14 markerUpdate markedMap = Inr (markedMap\<lparr>
      store := [(Coordinate 0 0, MapValue AGENT ''A'' 14), (Coordinate 1 0, MapValue EMPTY [] 3)],
      markers := [(Coordinate 2 0, MapValue MARKER ''ci'' 12), (Coordinate 3 0, MapValue MARKER ''ci'' 14)]\<rparr>)"
    by (simp add: addRange_def addThing_def purgeMarkers_def markerUpdate_def markedMap_def
        emptyMap_def setUpdate_def Let_def)
  show ?thesis
    using d r addRange_markers_fresh [OF d r] by (simp add: list_all_iff)
qed

section \<open>Coordinate arithmetic\<close>

lemma foldl_moveStep:
  "foldl moveStep c ds = Coordinate (cx c + fst (moveDelta ds)) (cy c + snd (moveDelta ds))"
  by (induction ds arbitrary: c) (auto split: Direction.splits)

lemma moveDelta_append: "moveDelta (xs @ ys) = (fst (moveDelta xs) + fst (moveDelta ys), snd (moveDelta xs) + snd (moveDelta ys))"
  by (induction xs) (auto split: Direction.splits)

lemma moveDelta_rev_opposite:
  "moveDelta (rev (map opposite ds)) = (- fst (moveDelta ds), - snd (moveDelta ds))"
  by (induction ds) (auto simp: moveDelta_append split: Direction.splits)

lemma wrapCoord_simps [simp]:
  "wrapCoord None v = v" "wrapCoord (Some w) v = v mod w"
  by (simp_all add: wrapCoord_def)

lemma wrapCoord_back: "wrapCoord wo (wrapCoord wo (x + d) - d) = wrapCoord wo x"
  by (cases wo) (simp_all add: mod_simps)

lemma move_back:
  "move g (move g c d True) (rev (map opposite d)) True = normalize g c"
  by (simp add: move_def Let_def foldl_moveStep moveDelta_rev_opposite normalize_def wrapCoord_back)

lemma move_back_raw:
  "move g (move g c d False) (rev (map opposite d)) False = c"
  by (simp add: move_def Let_def foldl_moveStep moveDelta_rev_opposite)

lemma wrapDifference_pos:
  assumes "0 < w"
  shows "wrapDifference (Some w) d = (if 2 * (d mod w) < w then d mod w else d mod w - w)"
proof -
  have p: "0 \<le> d mod w" "d mod w < w" using assms by simp_all
  have n: "d mod (- w) = (if d mod w = 0 then 0 else d mod w - w)"
    by (simp add: zmod_zminus2_eq_if)
  show ?thesis
    using p n by (auto simp: wrapDifference_def Let_def)
qed

lemma wrapDifference_None [simp]: "wrapDifference None d = d"
  by (simp add: wrapDifference_def)

lemma wrap_cong:
  assumes "0 < w"
  shows "(a + wrapDifference (Some w) d) mod w = (a + d) mod w"
proof -
  have "(a + (d mod w - w)) mod w = (a + d mod w - w) mod w"
    by (simp add: algebra_simps)
  also have "\<dots> = (a + d mod w) mod w" by simp
  also have "\<dots> = (a + d) mod w" by (simp add: mod_simps)
  finally show ?thesis
    using assms by (simp add: wrapDifference_pos mod_simps)
qed

lemma wrap_window:
  assumes "0 < w" "- w \<le> 2 * r" "2 * r < w" "d mod w = r mod w"
  shows "wrapDifference (Some w) d = r"
proof (cases "0 \<le> r")
  case True
  then have "r mod w = r" using assms by simp
  then show ?thesis using assms by (simp add: wrapDifference_pos)
next
  case False
  then have "r mod w = r + w" using assms
    by (smt (verit) mod_add_self2 mod_pos_pos_trivial)
  then show ?thesis using assms False by (simp add: wrapDifference_pos)
qed

lemma geometryOk_dimOk: "geometryOk g \<longleftrightarrow> dimOk (maxWidth g) \<and> dimOk (maxHeight g)"
  by (simp add: geometryOk_def dimOk_def)

lemma wrap_shift_relative:
  "dimOk wo \<Longrightarrow> wrapCoord wo (a + wrapDifference wo (b - a)) = wrapCoord wo b"
  by (cases wo) (simp_all add: dimOk_def wrap_cong)

lemma shift_relative:
  assumes "geometryOk g"
  shows "getShiftedCoordinate g a (getRelativeCoordinate g a b) True = normalize g b"
  using assms
  by (simp add: getShiftedCoordinate_def getRelativeCoordinate_def mkCoordinate_def normalize_def
      geometryOk_dimOk wrap_shift_relative)

lemma wrap_window_opt:
  assumes "dimOk wo" "inWindow wo r"
  shows "wrapDifference wo (wrapCoord wo (a + r) - a) = r"
proof (cases wo)
  case None
  then show ?thesis by simp
next
  case (Some w)
  have "((a + r) mod w - a) mod w = r mod w"
    by (simp add: mod_simps)
  then show ?thesis
    using assms Some by (simp add: inWindow_def dimOk_def wrap_window)
qed

lemma relative_shift:
  assumes "geometryOk g" "isShortestOffset g r"
  shows "getRelativeCoordinate g a (getShiftedCoordinate g a r True) = r"
  using assms
  by (cases r) (simp add: getShiftedCoordinate_def getRelativeCoordinate_def mkCoordinate_def
      normalize_def geometryOk_dimOk isShortestOffset_def wrap_window_opt)

lemma wrapDifference_window:
  assumes "dimOk wo"
  shows "inWindow wo (wrapDifference wo d) \<and> wrapCoord wo (wrapDifference wo d) = wrapCoord wo d"
proof (cases wo)
  case None
  then show ?thesis by (simp add: inWindow_def)
next
  case (Some w)
  then have w: "0 < w" using assms by (simp add: dimOk_def)
  define m where "m = d mod w"
  have p: "0 \<le> m" "m < w" using w by (simp_all add: m_def)
  have e: "(m - w) mod w = m" "m mod w = m"
    using p by (simp_all add: m_def)
  have v: "wrapDifference (Some w) d = (if 2 * m < w then m else m - w)"
    using w by (simp add: wrapDifference_pos m_def)
  have i: "inWindow (Some w) (if 2 * m < w then m else m - w)"
    using p by (auto simp: inWindow_def)
  have c: "wrapCoord (Some w) (if 2 * m < w then m else m - w) = d mod w"
    using e by (simp add: m_def)
  show ?thesis
    unfolding Some v using i c by simp
qed

lemma relative_shortest:
  assumes "geometryOk g"
  shows "isShortestOffset g (getRelativeCoordinate g a (getShiftedCoordinate g a off True)) \<and>
         normalize g (getRelativeCoordinate g a (getShiftedCoordinate g a off True)) = normalize g off"
proof -
  have x: "wrapCoord (maxWidth g) (wrapCoord (maxWidth g) (cx a + cx off) - cx a)
             = wrapCoord (maxWidth g) (cx off)"
    by (cases "maxWidth g") (simp_all add: mod_simps)
  have y: "wrapCoord (maxHeight g) (wrapCoord (maxHeight g) (cy a + cy off) - cy a)
             = wrapCoord (maxHeight g) (cy off)"
    by (cases "maxHeight g") (simp_all add: mod_simps)
  show ?thesis
    using assms x y
    by (simp add: getShiftedCoordinate_def getRelativeCoordinate_def mkCoordinate_def
        normalize_def geometryOk_dimOk isShortestOffset_def wrapDifference_window)
qed

text \<open>
  C7 (as amended). On a geometry with non-zero dimensions: moving by a direction sequence
  and then by the reversed sequence of opposite directions gives the normalised start
  (the start itself up to wrap-around); shifting \<open>a\<close> by the relative coordinate from
  \<open>a\<close> to \<open>b\<close> gives the normalised \<open>b\<close>; the relative coordinate from \<open>a\<close> to
  \<open>a\<close> shifted by \<open>r\<close> is \<open>r\<close> when \<open>r\<close> is a shortest offset, that is when each
  component lies in \<open>[-w/2, w/2)\<close> for its set dimension \<open>w\<close>; and for every offset the
  relative coordinate from \<open>a\<close> to \<open>a\<close> shifted by it is the shortest offset that is
  wrap-equivalent to it (it lies in the window and normalises to the same coordinate).
\<close>

theorem coordinate_roundtrip:
  assumes "geometryOk g"
  shows "move g (move g c d True) (rev (map opposite d)) True = normalize g c \<and>
         getShiftedCoordinate g a (getRelativeCoordinate g a b) True = normalize g b \<and>
         (isShortestOffset g r \<longrightarrow>
            getRelativeCoordinate g a (getShiftedCoordinate g a r True) = r) \<and>
         isShortestOffset g (getRelativeCoordinate g a (getShiftedCoordinate g a off True)) \<and>
         normalize g (getRelativeCoordinate g a (getShiftedCoordinate g a off True)) = normalize g off"
  using assms by (simp add: move_back shift_relative relative_shift relative_shortest)

theorem coordinate_roundtrip_witness:
  "geometryOk g10 \<and> isShortestOffset g10 (Coordinate (- 3) 4) \<and>
   move g10 (move g10 (Coordinate 12 3) [NORTH, EAST, EAST] True) [WEST, WEST, SOUTH] True
     = Coordinate 2 3 \<and>
   getShiftedCoordinate g10 (Coordinate 1 1)
     (getRelativeCoordinate g10 (Coordinate 1 1) (Coordinate 18 2)) True = Coordinate 8 2 \<and>
   getRelativeCoordinate g10 (Coordinate 1 1)
     (getShiftedCoordinate g10 (Coordinate 1 1) (Coordinate (- 3) 4) True) = Coordinate (- 3) 4 \<and>
   getRelativeCoordinate g10 (Coordinate 1 1)
     (getShiftedCoordinate g10 (Coordinate 1 1) (Coordinate 7 (- 6)) True) = Coordinate (- 3) 4 \<and>
   isShortestOffset g10 (getRelativeCoordinate g10 (Coordinate 1 1)
     (getShiftedCoordinate g10 (Coordinate 1 1) (Coordinate 7 (- 6)) True)) \<and>
   normalize g10 (getRelativeCoordinate g10 (Coordinate 1 1)
     (getShiftedCoordinate g10 (Coordinate 1 1) (Coordinate 7 (- 6)) True)) = Coordinate 7 4"
proof -
  have ok: "geometryOk g10" by (simp add: g10_def geometryOk_def)
  have sh: "isShortestOffset g10 (Coordinate (- 3) 4)"
    by (simp add: g10_def isShortestOffset_def inWindow_def)
  have e: "getRelativeCoordinate g10 (Coordinate 1 1)
     (getShiftedCoordinate g10 (Coordinate 1 1) (Coordinate 7 (- 6)) True) = Coordinate (- 3) 4"
    by (simp add: g10_def getRelativeCoordinate_def getShiftedCoordinate_def
      mkCoordinate_def normalize_def wrapDifference_def wrapCoord_def)
  have n: "normalize g10 (Coordinate 7 (- 6)) = Coordinate 7 4"
    by (simp add: normalize_def g10_def)
  show ?thesis
    using ok sh e
      coordinate_roundtrip [OF ok, of "Coordinate 12 3" "[NORTH, EAST, EAST]" "Coordinate 1 1"
        "Coordinate 18 2" "Coordinate (- 3) 4" "Coordinate 7 (- 6)"]
    by (simp add: normalize_def g10_def)
qed


text \<open>
  With both dimensions set to 10, the offset \<open>(7, 0)\<close> is not recovered: the relative
  coordinate is the shortest representative \<open>(-3, 0)\<close>.
\<close>

theorem relative_of_shifted_counterexample:
  "geometryOk g10 \<and>
   getRelativeCoordinate g10 (Coordinate 0 0)
     (getShiftedCoordinate g10 (Coordinate 0 0) (Coordinate 7 0) True) = Coordinate (- 3) 0 \<and>
   Coordinate (- 3) 0 \<noteq> Coordinate 7 0"
  by (simp add: g10_def geometryOk_def getRelativeCoordinate_def getShiftedCoordinate_def
      mkCoordinate_def normalize_def wrapDifference_def wrapCoord_def)

section \<open>Grid dimensions\<close>





lemma calc_replace_strict:
  "gridWidth srv = Some w \<Longrightarrow> gridWidth (calculateMapGridSize srv a b r v) = Some w' \<Longrightarrow>
   w' \<noteq> w \<Longrightarrow> w' < w"
  "gridHeight srv = Some h \<Longrightarrow> gridHeight (calculateMapGridSize srv a b r v) = Some h' \<Longrightarrow>
   h' \<noteq> h \<Longrightarrow> h' < h"
  by (auto simp: calculateMapGridSize_def Let_def split: if_splits)










section \<open>Map merge\<close>









lemma hasDispenser_Nil [simp]: "\<not> hasDispenser [] t x"
  by (simp add: hasDispenser_def)




















section \<open>Edge costs\<close>

lemma getMapValue_returns: "\<exists>v. getMapValue m key needMarker needDispenser = Inr v"
  using getDispenserMapValueByCoord_total [of key "dispenserMap m"]
  by (auto simp: getMapValue_def Let_def split: option.splits)

lemma getMapValueEnum_total:
  "getMapValueEnum m key needMarker needDispenser = Inr (mapValueEnumAt m key needMarker needDispenser)"
  using getMapValue_returns [of m key needMarker needDispenser]
  by (auto simp: getMapValueEnum_def mapValueEnumAt_def)

text \<open>
  C5 (as amended). For a step in the facing direction of an agent carrying one block, with
  the constants of \<^verbatim>\<open>calculateTravelConstantCosts\<close>: the edge cost is \<open>1 / speed\<close> when the
  destination holds neither an obstacle nor a block; \<open>1\<close> plus the clear surcharge when it
  holds an obstacle; \<open>100\<close> plus the clear surcharge when it holds a block. The surcharge is
  \<open>ceil(1 / clearChance) + clearConstantCost / (max(energy - clearEnergyCost, 0.1) / maxEnergy)\<close>.
\<close>

theorem straight_move_cost:
  assumes "calculateTravelConstantCosts agentSpeed clearEnergyCost agentEnergy agentMaxEnergy
             clearChance clearConstantCost = Inr (agentTravelTime, clearCost, clearSuccessTime)"
    and "isSameDirection (getDirection g current nextCoordinate) (getDirection g attachedCoord (origo g))"
  shows "distanceCost g m current nextCoordinate agentTravelTime clearSuccessTime clearCost
           [attachedCoord] rotateDict =
         Inr (let surcharge = real_of_int \<lceil>1 / clearChance\<rceil> + clearConstantCost /
                      (max (real_of_int (agentEnergy - clearEnergyCost)) (1 / 10)
                         / real_of_int agentMaxEnergy);
                  endValue = mapValueEnumAt m nextCoordinate False False
              in if endValue = OBSTACLE then 1 + surcharge
                 else if endValue = BLOCK then 100 + surcharge
                 else 1 / real_of_int agentSpeed, None)"
  using assms
  by (auto simp: distanceCost_def distanceCostWithoutRotating_def clearCostOf_def blockClearValue_def
      calculateTravelConstantCosts_def Let_def split: if_splits option.splits)

lemma obstacle_costs:
  "calculateTravelConstantCosts 2 0 100 100 (1 / 2) (5 / 2) = Inr (1 / 2, 5 / 2, 2)"
  by (simp add: calculateTravelConstantCosts_def)

lemma obstacle_value: "mapValueEnumAt obstacleMap (Coordinate 1 0) False False = OBSTACLE"
  by (simp add: mapValueEnumAt_def getMapValueEnum_def getMapValue_def obstacleMap_def emptyMap_def
      getAllDispenserCoords_def)

lemma obstacle_direction:
  "isSameDirection (getDirection gNone (Coordinate 0 0) (Coordinate 1 0))
     (getDirection gNone (Coordinate (- 1) 0) (origo gNone))"
  by (simp add: isSameDirection_def getDirection_def getRelativeCoordinate_def gNone_def origo_def
      mkCoordinate_def normalize_def wrapCoord_def wrapDifference_def)

theorem straight_move_cost_witness:
  "calculateTravelConstantCosts 2 0 100 100 (1 / 2) (5 / 2) = Inr (1 / 2, 5 / 2, 2) \<and>
   isSameDirection (getDirection gNone (Coordinate 0 0) (Coordinate 1 0))
     (getDirection gNone (Coordinate (- 1) 0) (origo gNone)) \<and>
   distanceCost gNone obstacleMap (Coordinate 0 0) (Coordinate 1 0) (1 / 2) 2 (5 / 2)
     [Coordinate (- 1) 0] None = Inr (11 / 2, None)"
  using obstacle_costs obstacle_direction
    straight_move_cost [OF obstacle_costs obstacle_direction, of obstacleMap None]
  by (simp add: obstacle_value)

text \<open>
  With speed 2 a straight step onto an obstacle costs \<open>1 + 2 + 2.5 = 5.5\<close>, not
  \<open>1/2 + 2 + 2.5 = 5\<close>: the obstacle branch adds the surcharge to the constant 1, not to the
  travel time.
\<close>

theorem straight_obstacle_cost_counterexample:
  "calculateTravelConstantCosts 2 0 100 100 (1 / 2) (5 / 2) = Inr (1 / 2, 5 / 2, 2) \<and>
   mapValueEnumAt obstacleMap (Coordinate 1 0) False False = OBSTACLE \<and>
   isSameDirection (getDirection gNone (Coordinate 0 0) (Coordinate 1 0))
     (getDirection gNone (Coordinate (- 1) 0) (origo gNone)) \<and>
   distanceCost gNone obstacleMap (Coordinate 0 0) (Coordinate 1 0) (1 / 2) 2 (5 / 2)
     [Coordinate (- 1) 0] None = Inr (11 / 2, None) \<and>
   (11 / 2 :: real) \<noteq> 1 / real_of_int 2 + (real_of_int \<lceil>1 / (1 / 2 :: real)\<rceil>
       + (5 / 2) / (real_of_int 100 / real_of_int 100))"
  using obstacle_costs obstacle_value obstacle_direction
  by (simp add: distanceCost_def distanceCostWithoutRotating_def clearCostOf_def)


section \<open>The heuristic\<close>

lemma absWrap_pos:
  assumes "0 < w"
  shows "\<bar>wrapDifference (Some w) d\<bar> = min (d mod w) (w - d mod w)"
proof -
  define p where "p = d mod w"
  have b: "0 \<le> p" "p < w" using assms by (simp_all add: p_def)
  show ?thesis
    unfolding wrapDifference_pos [OF assms] p_def [symmetric] using b by auto
qed

lemma absWrap_triangle:
  assumes "dimOk wo"
  shows "\<bar>wrapDifference wo (d1 + d2)\<bar> \<le> \<bar>wrapDifference wo d1\<bar> + \<bar>wrapDifference wo d2\<bar>"
proof (cases wo)
  case None
  then show ?thesis by simp
next
  case (Some w)
  then have w: "0 < w" using assms by (simp add: dimOk_def)
  define p1 where "p1 = d1 mod w"
  define p2 where "p2 = d2 mod w"
  define p where "p = (d1 + d2) mod w"
  have b: "0 \<le> p1" "p1 < w" "0 \<le> p2" "p2 < w" "0 \<le> p" "p < w"
    using w by (simp_all add: p1_def p2_def p_def)
  have "p = (p1 + p2) mod w" by (simp add: p_def p1_def p2_def mod_simps)
  then have "p = p1 + p2 \<or> p = p1 + p2 - w"
    using b w by (metis add_nonneg_nonneg mod_pos_pos_trivial not_le_imp_less
        add_less_cancel_left diff_ge_0_iff_ge diff_less_eq add_mono_thms_linordered_field(5) minus_mod_self2)
  then show ?thesis
    unfolding Some absWrap_pos [OF w] p1_def [symmetric] p2_def [symmetric] p_def [symmetric]
    using b by auto
qed

lemma manhattan_triangle:
  assumes "geometryOk g"
  shows "manhattanDistance g a c \<le> manhattanDistance g a b + manhattanDistance g b c"
proof -
  have x: "\<bar>wrapDifference (maxWidth g) (cx c - cx a)\<bar>
        \<le> \<bar>wrapDifference (maxWidth g) (cx b - cx a)\<bar> + \<bar>wrapDifference (maxWidth g) (cx c - cx b)\<bar>"
    using absWrap_triangle [of "maxWidth g" "cx b - cx a" "cx c - cx b"] assms
    by (simp add: geometryOk_dimOk)
  have y: "\<bar>wrapDifference (maxHeight g) (cy c - cy a)\<bar>
        \<le> \<bar>wrapDifference (maxHeight g) (cy b - cy a)\<bar> + \<bar>wrapDifference (maxHeight g) (cy c - cy b)\<bar>"
    using absWrap_triangle [of "maxHeight g" "cy b - cy a" "cy c - cy b"] assms
    by (simp add: geometryOk_dimOk)
  show ?thesis
    using x y by (simp add: manhattanDistance_def getRelativeCoordinate_def Let_def)
qed

lemma neighbors_close:
  assumes "n \<in> set (neighbors g c nrm 1 0)"
  shows "manhattanDistance g c n \<le> 1"
proof -
  from assms have "n \<in> set (filter (\<lambda>coord. manhattanDistance g c coord \<le> 1 \<and>
                               manhattanDistance g c coord \<ge> 0)
       (concat (map (\<lambda>i. map (\<lambda>j. mkCoordinate g i j nrm) [cy c - 1 .. cy c + 1 + 1 - 1])
                          [cx c - 1 .. cx c + 1 + 1 - 1])))"
    unfolding neighbors_def Let_def using set_remove1_subset by fastforce
  then show ?thesis by simp
qed

lemma distance_le_manhattan:
  "distance g a b \<le> real_of_int (manhattanDistance g a b)"
proof -
  define x where "x = real_of_int (cx (getRelativeCoordinate g a b))"
  define y where "y = real_of_int (cy (getRelativeCoordinate g a b))"
  have "sqrt (x\<^sup>2 + y\<^sup>2) \<le> \<bar>x\<bar> + \<bar>y\<bar>"
    by (rule sqrt_sum_squares_le_sum_abs)
  then show ?thesis
    by (simp add: distance_def manhattanDistance_def Let_def x_def y_def)
qed

lemma rotateCost_ge:
  "0 \<le> clearCostOf cst cc \<Longrightarrow> cost \<le> rotateCost m cst cc cost coords"
  unfolding rotateCost_def
proof (induction coords arbitrary: cost)
  case Nil
  then show ?case by simp
next
  case (Cons c coords)
  let ?c1 = "(let coordValue = mapValueEnumAt m c False False
              in if coordValue = OBSTACLE then cost + clearCostOf cst cc
                 else if coordValue = BLOCK
                 then cost + (blockClearValue + clearCostOf cst cc)
                 else cost)"
  have "cost \<le> ?c1" using Cons.prems by (simp add: Let_def blockClearValue_def)
  also have "?c1 \<le> foldl (\<lambda>acc coord.
              let coordValue = mapValueEnumAt m coord False False
              in if coordValue = OBSTACLE then acc + clearCostOf cst cc
                 else if coordValue = BLOCK
                 then acc + (blockClearValue + clearCostOf cst cc)
                 else acc) ?c1 coords"
    by (rule Cons.IH [OF Cons.prems])
  finally show ?case by simp
qed

lemma distanceCost_ge_one:
  assumes "1 \<le> tt" "0 \<le> clearCostOf cst cc"
    and "distanceCost g m cur nxt tt cst cc attached rd = Inr (cost, dir)"
  shows "1 \<le> cost"
proof -
  have a: "1 \<le> distanceCostWithoutRotating v tt cst cc" for v
    using assms(1,2) by (simp add: distanceCostWithoutRotating_def blockClearValue_def)
  have b: "1 \<le> distanceCostWithRotating g m cur nxt cst cc ac" for ac
    using assms(2) by (simp add: distanceCostWithRotating_def Let_def blockClearValue_def)
  have c: "1 \<le> cost'" if "distanceCostWithOppositeRotating g m cur nxt cst cc rd' = Inr (cost', dir')"
    for rd' cost' dir'
    using that rotateCost_ge [OF assms(2), of 6 m]
    by (auto simp: distanceCostWithOppositeRotating_def Let_def split: option.splits if_splits
        intro: order_trans [of 1 6])
  show ?thesis
    using assms(3) a b c
    by (auto simp: distanceCost_def Let_def split: list.splits option.splits if_splits prod.splits)
qed

lemma manhattan_self: "manhattanDistance g a a = 0"
  by (cases "maxWidth g"; cases "maxHeight g")
     (simp_all add: manhattanDistance_def getRelativeCoordinate_def wrapDifference_def)

lemma path_manhattan:
  assumes "geometryOk g" "1 \<le> tt" "0 \<le> clearCostOf cst cc"
  shows "isPath g start steps \<Longrightarrow> pathCost g m tt cst cc start steps = Inr totalCost \<Longrightarrow>
         real_of_int (manhattanDistance g start (pathEnd start steps)) \<le> totalCost"
proof (induction steps arbitrary: start totalCost)
  case Nil
  then show ?case by (simp add: manhattan_self)
next
  case (Cons step steps)
  obtain nxt attached rd where st: "step = (nxt, attached, rd)" by (cases step)
  from Cons.prems(2) obtain cost dir rest where
    c: "distanceCost g m start nxt tt cst cc attached rd = Inr (cost, dir)"
    and r: "pathCost g m tt cst cc nxt steps = Inr rest"
    and t: "totalCost = cost + rest"
    by (auto simp: st split: sum.splits prod.splits)
  have p: "isPath g nxt steps" and n: "nxt \<in> set (neighbors g start True 1 0)"
    using Cons.prems(1) by (simp_all add: st)
  have c1: "1 \<le> cost" using assms(2,3) c by (rule distanceCost_ge_one)
  have "manhattanDistance g start (pathEnd nxt steps)
        \<le> manhattanDistance g start nxt + manhattanDistance g nxt (pathEnd nxt steps)"
    using assms(1) by (rule manhattan_triangle)
  also have "\<dots> \<le> 1 + manhattanDistance g nxt (pathEnd nxt steps)"
    using neighbors_close [OF n] by simp
  finally have "real_of_int (manhattanDistance g start (pathEnd nxt steps))
        \<le> 1 + real_of_int (manhattanDistance g nxt (pathEnd nxt steps))"
    by linarith
  also have "\<dots> \<le> cost + rest"
    using c1 Cons.IH [OF p r] by simp
  finally show ?case by (simp add: st t)
qed

lemma unit_speed_costs:
  assumes "calculateTravelConstantCosts agentSpeed cec energy maxE chance const = Inr (tt, cc, cst)"
    and "agentSpeed = 1" "0 \<le> const" "0 < maxE" "0 < chance"
  shows "1 \<le> tt" "0 \<le> clearCostOf cst cc"
proof -
  from assms(1) have tt: "tt = 1 / real_of_int agentSpeed"
    and cc: "cc = const / (max (real_of_int (energy - cec)) (1 / 10) / real_of_int maxE)"
    and cst: "cst = \<lceil>1 / chance\<rceil>"
    by (auto simp: calculateTravelConstantCosts_def Let_def split: if_splits)
  show "1 \<le> tt" using assms(2) tt by simp
  have "0 < max (real_of_int (energy - cec)) (1 / 10) / real_of_int maxE"
    using assms(4) by (simp add: max_def)
  then have "0 \<le> const / (max (real_of_int (energy - cec)) (1 / 10) / real_of_int maxE)"
    using assms(3) by (intro divide_nonneg_pos)
  then have "0 \<le> cc" unfolding cc .
  moreover have "0 \<le> cst"
  proof -
    have "0 \<le> 1 / chance" using assms(5) by simp
    then have "0 \<le> \<lceil>1 / chance\<rceil>" by (metis ceiling_mono ceiling_zero)
    then show ?thesis unfolding cst .
  qed
  ultimately show "0 \<le> clearCostOf cst cc" by (simp add: clearCostOf_def)
qed

text \<open>
  C6 (as amended). For agent speed 1 and a non-negative clear cost (non-negative
  \<^verbatim>\<open>clearConstantCost\<close>, positive maximal energy and clear chance), on a geometry with
  positive dimensions: the Euclidean heuristic from a coordinate to the end of any path of
  neighbour steps is at most the totalCost edge cost of that path, whatever the map and the
  attachment state at each step.
\<close>

theorem heuristic_admissible_unit_speed:
  assumes "geometryOk g"
    and "calculateTravelConstantCosts agentSpeed clearEnergyCost agentEnergy agentMaxEnergy
           clearChance clearConstantCost = Inr (agentTravelTime, clearCost, clearSuccessTime)"
    and "agentSpeed = 1" "0 \<le> clearConstantCost" "0 < agentMaxEnergy" "0 < clearChance"
    and "isPath g start steps"
    and "pathCost g m agentTravelTime clearSuccessTime clearCost start steps = Inr totalCost"
  shows "heuristicCost g start (pathEnd start steps) \<le> totalCost"
proof -
  note u = unit_speed_costs [OF assms(2-6)]
  have "heuristicCost g start (pathEnd start steps)
        \<le> real_of_int (manhattanDistance g start (pathEnd start steps))"
    unfolding heuristicCost_def by (rule distance_le_manhattan)
  also have "\<dots> \<le> totalCost"
    using assms(1) u assms(7,8) by (rule path_manhattan)
  finally show ?thesis .
qed

lemma neighbors_origin:
  "neighbors gNone (Coordinate 0 0) True 1 0
     = [Coordinate (- 1) 0, Coordinate 0 (- 1), Coordinate 0 1, Coordinate 1 0]"
  "neighbors gNone (Coordinate 1 0) True 1 0
     = [Coordinate 0 0, Coordinate 1 (- 1), Coordinate 1 1, Coordinate 2 0]"
  by (simp_all add: neighbors_def gNone_def mkCoordinate_def normalize_def wrapCoord_def
      manhattanDistance_def getRelativeCoordinate_def wrapDifference_def upto.simps Let_def)

lemma unit_costs: "calculateTravelConstantCosts 1 0 100 100 (1 / 2) (5 / 2) = Inr (1, 5 / 2, 2)"
  by (simp add: calculateTravelConstantCosts_def)

lemma eastPath_isPath: "isPath gNone (Coordinate 0 0) eastPath"
  by (simp add: eastPath_def neighbors_origin)

lemma obstacle_value2: "mapValueEnumAt obstacleMap (Coordinate 2 0) False False = UNKNOWN"
  by (simp add: mapValueEnumAt_def getMapValueEnum_def getMapValue_def obstacleMap_def emptyMap_def
      getAllDispenserCoords_def)

lemma eastPath_cost:
  "pathCost gNone obstacleMap tt 2 (5 / 2) (Coordinate 0 0) eastPath = Inr (11 / 2 + tt)"
  by (simp add: eastPath_def distanceCost_def distanceCostWithoutRotating_def clearCostOf_def
      obstacle_value obstacle_value2)

lemma eastPath_heuristic: "heuristicCost gNone (Coordinate 0 0) (pathEnd (Coordinate 0 0) eastPath) = 2"
proof -
  have "sqrt 4 = 2" using real_sqrt_abs [of 2] by simp
  then show ?thesis
    by (simp add: heuristicCost_def distance_def eastPath_def getRelativeCoordinate_def gNone_def
        wrapDifference_def)
qed

theorem heuristic_admissible_unit_speed_witness:
  "geometryOk gNone \<and>
   calculateTravelConstantCosts 1 0 100 100 (1 / 2) (5 / 2) = Inr (1, 5 / 2, 2) \<and>
   isPath gNone (Coordinate 0 0) eastPath \<and>
   pathCost gNone obstacleMap 1 2 (5 / 2) (Coordinate 0 0) eastPath = Inr (13 / 2) \<and>
   heuristicCost gNone (Coordinate 0 0) (pathEnd (Coordinate 0 0) eastPath) = 2 \<and>
   heuristicCost gNone (Coordinate 0 0) (pathEnd (Coordinate 0 0) eastPath) \<le> 13 / 2"
proof -
  have ok: "geometryOk gNone" by (simp add: geometryOk_def gNone_def)
  have c: "pathCost gNone obstacleMap 1 2 (5 / 2) (Coordinate 0 0) eastPath = Inr (13 / 2)"
    using eastPath_cost [of 1] by simp
  have "heuristicCost gNone (Coordinate 0 0) (pathEnd (Coordinate 0 0) eastPath) \<le> 13 / 2"
    using heuristic_admissible_unit_speed [OF ok unit_costs _ _ _ _ eastPath_isPath c] by simp
  then show ?thesis
    using ok unit_costs eastPath_isPath c eastPath_heuristic by simp
qed

text \<open>
  With speed 2 a free step costs \<open>1/2\<close>: the one-step path from \<open>(0, 0)\<close> to \<open>(1, 0)\<close>
  costs \<open>1/2\<close> while the heuristic between its ends is 1.
\<close>

theorem heuristic_not_admissible_counterexample:
  "calculateTravelConstantCosts 2 0 100 100 (1 / 2) (5 / 2) = Inr (1 / 2, 5 / 2, 2) \<and>
   isPath gNone (Coordinate 0 0) [(Coordinate 1 0, [], None)] \<and>
   pathEnd (Coordinate 0 0) [(Coordinate 1 0, [], None)] = Coordinate 1 0 \<and>
   pathCost gNone emptyMap (1 / 2) 2 (5 / 2) (Coordinate 0 0) [(Coordinate 1 0, [], None)] = Inr (1 / 2) \<and>
   heuristicCost gNone (Coordinate 0 0) (Coordinate 1 0) = 1 \<and>
   \<not> heuristicCost gNone (Coordinate 0 0) (Coordinate 1 0) \<le> 1 / 2"
proof -
  have h: "heuristicCost gNone (Coordinate 0 0) (Coordinate 1 0) = 1"
    by (simp add: heuristicCost_def distance_def getRelativeCoordinate_def gNone_def wrapDifference_def)
  have v: "mapValueEnumAt emptyMap (Coordinate 1 0) False False = UNKNOWN"
    by (simp add: mapValueEnumAt_def getMapValueEnum_def getMapValue_def emptyMap_def)
  have c: "pathCost gNone emptyMap (1 / 2) 2 (5 / 2) (Coordinate 0 0) [(Coordinate 1 0, [], None)] = Inr (1 / 2)"
    by (simp add: distanceCost_def distanceCostWithoutRotating_def v)
  show ?thesis
    using h c by (simp add: calculateTravelConstantCosts_def neighbors_origin)
qed


section \<open>Reservations\<close>

lemma upto3: "[x - 1 .. x + 1 + 1 - 1] = [x - 1, x, x + 1]"
proof -
  have a: "[x - 1 .. x + 1] = (x - 1) # [x .. x + 1]"
    using upto_rec1 [of "x - 1" "x + 1"] by simp
  have b: "[x .. x + 1] = x # [x + 1 .. x + 1]"
    using upto_rec1 [of x "x + 1"] by simp
  have c: "[x + 1 .. x + 1] = [x + 1]" by simp
  have e: "x + 1 + 1 - 1 = x + 1" by simp
  show ?thesis by (simp only: e a b c)
qed

lemma neighbors_gNone:
  "neighbors gNone (Coordinate x y) True 1 0
     = [Coordinate (x - 1) y, Coordinate x (y - 1), Coordinate x (y + 1), Coordinate (x + 1) y]"
  unfolding neighbors_def Let_def Coordinate.sel upto3
  by (simp add: gNone_def mkCoordinate_def normalize_def wrapCoord_def manhattanDistance_def
      getRelativeCoordinate_def wrapDifference_def)

lemma surrounding_gNone:
  "getSurroundingNeighbors gNone (Coordinate x y) True
     = [Coordinate (x - 1) y, Coordinate x (y - 1), Coordinate x (y + 1), Coordinate (x + 1) y,
        Coordinate (x + 1) (y + 1), Coordinate (x + 1) (y - 1), Coordinate (x - 1) (y + 1),
        Coordinate (x - 1) (y - 1)]"
  unfolding getSurroundingNeighbors_def neighbors_gNone
  by (simp add: getShiftedCoordinate_def gNone_def mkCoordinate_def normalize_def wrapCoord_def)

lemma shifted_gNone:
  "getShiftedCoordinate gNone (Coordinate x y) (Coordinate a b) True = Coordinate (x + a) (y + b)"
  by (simp add: getShiftedCoordinate_def gNone_def mkCoordinate_def normalize_def wrapCoord_def)

lemma distance_gNone:
  "distance gNone (Coordinate x y) (Coordinate a b) = sqrt (real_of_int ((a - x)\<^sup>2 + (b - y)\<^sup>2))"
  by (simp add: distance_def getRelativeCoordinate_def gNone_def wrapDifference_def)

lemma unknown_value:
  "store m = [] \<Longrightarrow> markers m = [] \<Longrightarrow> mapValueEnumAt m c nm nd = UNKNOWN"
  by (simp add: mapValueEnumAt_def getMapValueEnum_def getMapValue_def)

lemma zoneMapY_eq:
  "tryReserveCloserGoalZoneForTask gNone zoneMap ''Y'' None (Coordinate 0 (- 3)) [Coordinate 0 1]
   = (zoneMap\<lparr>agentCoordReservations := [(''Y'',
   [Coordinate (- 1) (- 3), Coordinate 0 (- 4), Coordinate 0 (- 2),
    Coordinate 1 (- 3), Coordinate 1 (- 2), Coordinate 1 (- 4),
    Coordinate (- 1) (- 2), Coordinate (- 1) (- 4), Coordinate (- 1) (- 2),
    Coordinate 0 (- 3), Coordinate 0 (- 1), Coordinate 1 (- 2),
    Coordinate 1 (- 1), Coordinate 1 (- 3), Coordinate (- 1) (- 1),
    Coordinate (- 1) (- 3)])]\<rparr>, Some (Coordinate 0 (- 3)))"
  by (simp add: tryReserveCloserGoalZoneForTask_def closerGoalZones_def getFirstFreeGoalZoneForTask_def
      reserveableCoordsOf_def allReservedCoords_def reserveCoordinatesForTask_def
      freeCoordinatesFromTask_def zoneMap_def emptyMap_def unknown_value surrounding_gNone shifted_gNone
      distance_gNone Let_def)

lemma zoneMapXY_eq:
  "tryReserveCloserGoalZoneForTask gNone zoneMapY ''X'' None (Coordinate 0 0) [Coordinate 0 1]
   = (zoneMapY\<lparr>agentCoordReservations := [(''Y'',
   [Coordinate (- 1) (- 3), Coordinate 0 (- 4), Coordinate 0 (- 2),
    Coordinate 1 (- 3), Coordinate 1 (- 2), Coordinate 1 (- 4),
    Coordinate (- 1) (- 2), Coordinate (- 1) (- 4), Coordinate (- 1) (- 2),
    Coordinate 0 (- 3), Coordinate 0 (- 1), Coordinate 1 (- 2),
    Coordinate 1 (- 1), Coordinate 1 (- 3), Coordinate (- 1) (- 1),
    Coordinate (- 1) (- 3)]), (''X'',
   [Coordinate (- 1) 0, Coordinate 0 (- 1), Coordinate 0 1, Coordinate 1 0,
    Coordinate 1 1, Coordinate 1 (- 1), Coordinate (- 1) 1, Coordinate (- 1) (- 1),
    Coordinate (- 1) 1, Coordinate 0 0, Coordinate 0 2, Coordinate 1 1,
    Coordinate 1 2, Coordinate 1 0, Coordinate (- 1) 2, Coordinate (- 1) 0])]\<rparr>,
      Some (Coordinate 0 0))"
  unfolding zoneMapY_def zoneMapY_eq
  by (simp add: tryReserveCloserGoalZoneForTask_def closerGoalZones_def getFirstFreeGoalZoneForTask_def
      reserveableCoordsOf_def allReservedCoords_def reserveCoordinatesForTask_def
      freeCoordinatesFromTask_def zoneMap_def emptyMap_def unknown_value surrounding_gNone shifted_gNone
      distance_gNone Let_def)

lemma firstFree_Some:
  "firstFreeGoalZone g m rs zones blocks = Some z \<Longrightarrow>
   z \<in> set zones \<and>
   list_all (\<lambda>rc. rc \<notin> set rs \<and> mapValueEnumAt m rc False True \<noteq> DISPENSER)
            (reserveableCoordsOf g z blocks)"
  by (induction zones) (auto split: if_splits)

lemma closerGoalZones_subset:
  "set (closerGoalZones g m cgz cur) \<subseteq> set (goalZones m)"
  by (auto simp: closerGoalZones_def)

lemma reserve_after_free:
  "agentCoordReservations (reserveCoordinatesForTask g (freeCoordinatesFromTask m a) a z blocks)
   = AList.update a (reservedCellsFor g z blocks) (AList.update a [] (agentCoordReservations m))"
  by (simp add: reserveCoordinatesForTask_def freeCoordinatesFromTask_def reservedCellsFor_def
      Let_def update_conv' dom_update image_iff)

text \<open>
  C9. What a call of \<^verbatim>\<open>tryReserveCloserGoalZoneForTask\<close> does guarantee. A call that finds
  no zone leaves the map unchanged. When it succeeds for agent \<open>X\<close> with zone \<open>z\<close>: \<open>z\<close>
  is one of the map's goal zones; \<open>X\<close>'s earlier claims are released before the new cells
  are recorded, so that afterwards \<open>X\<close> holds exactly the cells surrounding \<open>z\<close> and the
  block positions; the claims of every other agent are untouched; and none of the cells
  surrounding the block positions was held by any agent, or carried a dispenser, at the time
  of the free-zone check. The cells surrounding \<open>z\<close> itself are recorded without having
  been checked, so exclusive ownership does not follow (see the failing run below).
\<close>

theorem reservation_replaces_prior_claims:
  assumes "tryReserveCloserGoalZoneForTask g m agentId currentGoalZone currentCoordinate blockRelCoords
             = (m', result)"
  shows "(result = None \<longrightarrow> m' = m) \<and>
    (\<forall>z. result = Some z \<longrightarrow>
       z \<in> set (goalZones m) \<and>
       reservationOf m' agentId = reservedCellsFor g z blockRelCoords \<and>
       (\<forall>other. other \<noteq> agentId \<longrightarrow> reservationOf m' other = reservationOf m other) \<and>
       (\<forall>bc \<in> set blockRelCoords.
          \<forall>rc \<in> set (getSurroundingNeighbors g (getShiftedCoordinate g z bc True) True).
             \<not> isCoordinateReservedForTask m rc \<and> mapValueEnumAt m rc False True \<noteq> DISPENSER))"
proof (cases "getFirstFreeGoalZoneForTask g m (closerGoalZones g m currentGoalZone currentCoordinate)
                blockRelCoords")
  case None
  then show ?thesis
    using assms by (auto simp: tryReserveCloserGoalZoneForTask_def Let_def)
next
  case (Some z)
  then have r: "result = Some z"
    and m': "m' = reserveCoordinatesForTask g (freeCoordinatesFromTask m agentId) agentId z blockRelCoords"
    using assms by (auto simp: tryReserveCloserGoalZoneForTask_def Let_def)
  from Some have ff: "z \<in> set (closerGoalZones g m currentGoalZone currentCoordinate)"
    and chk: "list_all (\<lambda>rc. rc \<notin> set (allReservedCoords m) \<and> mapValueEnumAt m rc False True \<noteq> DISPENSER)
                (reserveableCoordsOf g z blockRelCoords)"
    using firstFree_Some [of g m "allReservedCoords m"] unfolding getFirstFreeGoalZoneForTask_def
    by blast+
  have z: "z \<in> set (goalZones m)" using ff closerGoalZones_subset by blast
  have own: "reservationOf m' agentId = reservedCellsFor g z blockRelCoords"
    unfolding m' reservationOf_def reserve_after_free by (simp add: update_conv')
  have others: "\<forall>other. other \<noteq> agentId \<longrightarrow> reservationOf m' other = reservationOf m other"
    unfolding m' reservationOf_def reserve_after_free by (simp add: update_conv')
  have free: "\<forall>bc \<in> set blockRelCoords.
          \<forall>rc \<in> set (getSurroundingNeighbors g (getShiftedCoordinate g z bc True) True).
             \<not> isCoordinateReservedForTask m rc \<and> mapValueEnumAt m rc False True \<noteq> DISPENSER"
    using chk unfolding list_all_iff reserveableCoordsOf_def Let_def isCoordinateReservedForTask_def
    by auto
  show ?thesis using r z own others free by simp
qed

theorem reservation_replaces_prior_claims_witness:
  "tryReserveCloserGoalZoneForTask gNone zoneMapY ''X'' None (Coordinate 0 0) [Coordinate 0 1]
     = (zoneMapXY, Some (Coordinate 0 0)) \<and>
   Coordinate 0 0 \<in> set (goalZones zoneMapY) \<and>
   reservationOf zoneMapXY ''X'' = reservedCellsFor gNone (Coordinate 0 0) [Coordinate 0 1] \<and>
   reservationOf zoneMapXY ''Y'' = reservationOf zoneMapY ''Y'' \<and>
   \<not> isCoordinateReservedForTask zoneMapY (Coordinate 0 2)"
proof -
  have e: "tryReserveCloserGoalZoneForTask gNone zoneMapY ''X'' None (Coordinate 0 0) [Coordinate 0 1]
     = (zoneMapXY, Some (Coordinate 0 0))"
    unfolding zoneMapXY_def by (simp add: zoneMapXY_eq)
  note t = reservation_replaces_prior_claims [OF e, THEN conjunct2, rule_format, OF refl]
  have a: "Coordinate 0 0 \<in> set (goalZones zoneMapY)" using t by blast
  have b: "reservationOf zoneMapXY ''X'' = reservedCellsFor gNone (Coordinate 0 0) [Coordinate 0 1]"
    using t by blast
  have c: "reservationOf zoneMapXY ''Y'' = reservationOf zoneMapY ''Y''"
    using t by simp
  have d: "\<not> isCoordinateReservedForTask zoneMapY (Coordinate 0 2)"
    using t [THEN conjunct2, THEN conjunct2, THEN conjunct2, rule_format, of "Coordinate 0 1" "Coordinate 0 2"]
    by (simp add: surrounding_gNone shifted_gNone)
  show ?thesis using e a b c d by simp
qed

text \<open>
  C9, the failing run. Two successive requests on a map with goal zones \<open>(0, -3)\<close> and
  \<open>(0, 0)\<close>, each for a task with one block at relative \<open>(0, 1)\<close>: agent \<open>Y\<close> reserves
  at \<open>(0, -3)\<close> and thereby holds \<open>(0, -1)\<close>; agent \<open>X\<close> then succeeds at \<open>(0, 0)\<close>,
  because \<^verbatim>\<open>getFirstFreeGoalZoneForTask\<close> checks only the cells around the block position
  \<open>(0, 1)\<close>, and \<^verbatim>\<open>reserveCoordinatesForTask\<close> records the cells around the goal zone as
  well, among them \<open>(0, -1)\<close>. The cell was held by \<open>Y\<close> at the time of the check and is
  held by both agents afterwards.
\<close>

theorem reservation_exclusivity_counterexample:
  "tryReserveCloserGoalZoneForTask gNone zoneMap ''Y'' None (Coordinate 0 (- 3)) [Coordinate 0 1]
     = (zoneMapY, Some (Coordinate 0 (- 3))) \<and>
   tryReserveCloserGoalZoneForTask gNone zoneMapY ''X'' None (Coordinate 0 0) [Coordinate 0 1]
     = (zoneMapXY, Some (Coordinate 0 0)) \<and>
   isCoordinateReservedForTask zoneMapY (Coordinate 0 (- 1)) \<and>
   Coordinate 0 (- 1) \<in> set (reservationOf zoneMapY ''Y'') \<and>
   Coordinate 0 (- 1) \<in> set (reservationOf zoneMapXY ''X'') \<and>
   Coordinate 0 (- 1) \<in> set (reservationOf zoneMapXY ''Y'')"
proof -
  have y: "tryReserveCloserGoalZoneForTask gNone zoneMap ''Y'' None (Coordinate 0 (- 3)) [Coordinate 0 1]
     = (zoneMapY, Some (Coordinate 0 (- 3)))"
    unfolding zoneMapY_def by (simp add: zoneMapY_eq)
  have x: "tryReserveCloserGoalZoneForTask gNone zoneMapY ''X'' None (Coordinate 0 0) [Coordinate 0 1]
     = (zoneMapXY, Some (Coordinate 0 0))"
    unfolding zoneMapXY_def by (simp add: zoneMapXY_eq)
  have ry: "isCoordinateReservedForTask zoneMapY (Coordinate 0 (- 1)) \<and>
      Coordinate 0 (- 1) \<in> set (reservationOf zoneMapY ''Y'')"
    unfolding zoneMapY_def zoneMapY_eq
    by (simp add: isCoordinateReservedForTask_def allReservedCoords_def reservationOf_def)
  have rxy: "Coordinate 0 (- 1) \<in> set (reservationOf zoneMapXY ''X'') \<and>
      Coordinate 0 (- 1) \<in> set (reservationOf zoneMapXY ''Y'')"
    unfolding zoneMapXY_def zoneMapXY_eq
    by (simp add: reservationOf_def)
  show ?thesis using y x ry rxy by simp
qed


section \<open>Unique identification\<close>

lemma identifyStep_not_unique:
  assumes "length canditates \<noteq> 1" "identifyStep g st agentId dynamicPercept canditates = Inr st'"
  shows "st' = st"
  using assms by (auto simp: identifyStep_def bindE_def split: sum.splits)

lemma agentLoop_ambiguous:
  "2 \<le> length canditates \<Longrightarrow>
   agentLoop g st agentId dynamicPercept canditates coords = Inr (st', canditates') \<Longrightarrow>
   st' = st \<and> 2 \<le> length canditates'"
proof (induction coords arbitrary: canditates)
  case Nil
  then show ?case by simp
next
  case (Cons c coords)
  from Cons.prems(2) obtain found st1 where
    f: "newCandidates g (currentDynamicPerceptWrappers (fst st)) agentId dynamicPercept c = Inr found"
    and s: "identifyStep g st agentId dynamicPercept (canditates @ found) = Inr st1"
    and r: "agentLoop g st1 agentId dynamicPercept (canditates @ found) coords = Inr (st', canditates')"
    by (auto simp: bindE_def Let_def split: sum.splits)
  have l: "2 \<le> length (canditates @ found)" using Cons.prems(1) by simp
  then have "st1 = st" using identifyStep_not_unique [OF _ s] by simp
  with Cons.IH [OF l] r show ?case by simp
qed

lemma agentLoop_never_unique:
  "(\<forall>n. 0 < n \<and> n \<le> length coords \<longrightarrow>
      length (canditates @ accumulated g (currentDynamicPerceptWrappers (fst st)) agentId dynamicPercept
                (take n coords)) \<noteq> 1) \<Longrightarrow>
   agentLoop g st agentId dynamicPercept canditates coords = Inr (st', canditates') \<Longrightarrow>
   st' = st"
proof (induction coords arbitrary: canditates)
  case Nil
  then show ?case by simp
next
  case (Cons c coords)
  let ?P = "currentDynamicPerceptWrappers (fst st)"
  from Cons.prems(2) obtain found st1 where
    f: "newCandidates g ?P agentId dynamicPercept c = Inr found"
    and s: "identifyStep g st agentId dynamicPercept (canditates @ found) = Inr st1"
    and r: "agentLoop g st1 agentId dynamicPercept (canditates @ found) coords = Inr (st', canditates')"
    by (auto simp: bindE_def Let_def split: sum.splits)
  have "length (canditates @ accumulated g ?P agentId dynamicPercept (take 1 (c # coords))) \<noteq> 1"
    using Cons.prems(1) [rule_format, of 1] by simp
  then have "length (canditates @ found) \<noteq> 1" using f by simp
  then have st1: "st1 = st" using identifyStep_not_unique [OF _ s] by simp
  have "\<forall>n. 0 < n \<and> n \<le> length coords \<longrightarrow>
      length ((canditates @ found) @ accumulated g ?P agentId dynamicPercept (take n coords)) \<noteq> 1"
  proof (intro allI impI)
    fix n assume n: "0 < n \<and> n \<le> length coords"
    have "length (canditates @ accumulated g ?P agentId dynamicPercept (take (Suc n) (c # coords))) \<noteq> 1"
      using Cons.prems(1) [rule_format, of "Suc n"] n by simp
    then show "length ((canditates @ found) @ accumulated g ?P agentId dynamicPercept (take n coords)) \<noteq> 1"
      using f by simp
  qed
  from Cons.IH [OF this] r st1 show ?case by simp
qed

lemma applyChecks_append:
  "applyChecks g st (xs @ ys) = bindE (applyChecks g st xs) (\<lambda>st1. applyChecks g st1 ys)"
proof (induction xs arbitrary: st)
  case Nil
  show ?case by (simp add: bindE_def)
next
  case (Cons chk xs)
  obtain a p c where chk: "chk = (a, p, c)" by (cases chk) auto
  show ?case
    by (simp add: chk Cons.IH bindE_def split: sum.splits)
qed

lemma mergeMaps_percepts:
  "mergeMaps g srv a b c = Inr (srv', off) \<Longrightarrow>
   currentDynamicPerceptWrappers srv' = currentDynamicPerceptWrappers srv"
  by (auto simp: mergeMaps_def bindE_def lookupE_def Let_def split: sum.splits option.splits prod.splits)

lemma calc_percepts:
  "currentDynamicPerceptWrappers (calculateMapGridSize srv a b r v) = currentDynamicPerceptWrappers srv"
  by (simp add: calculateMapGridSize_def Let_def)

lemma applyIdentification_percepts:
  assumes "applyIdentification g st a p m c = Inr st'"
  shows "currentDynamicPerceptWrappers (fst st') = currentDynamicPerceptWrappers (fst st)"
  using assms
  by (auto simp: applyIdentification_def bindE_def Let_def calc_percepts
      dest: mergeMaps_percepts split: sum.splits if_splits prod.splits)

lemma identifyStep_as_checks:
  assumes "identifyStep g st a p cs = Inr st'"
  shows "applyChecks g st (if length cs = 1 then [(a, p, hd cs)] else []) = Inr st' \<and>
         currentDynamicPerceptWrappers (fst st') = currentDynamicPerceptWrappers (fst st)"
  using assms
  by (auto simp: identifyStep_def bindE_def dest: applyIdentification_percepts
      split: sum.splits if_splits)

lemma agentLoop_as_checks:
  "agentLoop g st a p cs coords = Inr (st', cs') \<Longrightarrow>
   applyChecks g st (checksOf g (currentDynamicPerceptWrappers (fst st)) a p cs coords) = Inr st' \<and>
   currentDynamicPerceptWrappers (fst st') = currentDynamicPerceptWrappers (fst st)"
proof (induction coords arbitrary: st cs)
  case Nil
  then show ?case by simp
next
  case (Cons c coords)
  let ?P = "currentDynamicPerceptWrappers (fst st)"
  from Cons.prems obtain found st1 where
    f: "newCandidates g ?P a p c = Inr found"
    and s: "identifyStep g st a p (cs @ found) = Inr st1"
    and r: "agentLoop g st1 a p (cs @ found) coords = Inr (st', cs')"
    by (auto simp: bindE_def Let_def split: sum.splits)
  note i = identifyStep_as_checks [OF s]
  note h = Cons.IH [OF r]
  have P1: "currentDynamicPerceptWrappers (fst st1) = ?P" using i by simp
  have "applyChecks g st ((if length (cs @ found) = 1 then [(a, p, hd (cs @ found))] else [])
           @ checksOf g ?P a p (cs @ found) coords) = Inr st'"
    unfolding applyChecks_append using i h by (simp add: bindE_def P1)
  then show ?case using h f P1 by (simp add: Let_def)
qed

lemma identifyAgent_as_checks:
  assumes "identifyAgent g st entry = Inr st'"
  shows "applyChecks g st (uniqueChecks g (currentDynamicPerceptWrappers (fst st)) [entry]) = Inr st' \<and>
         currentDynamicPerceptWrappers (fst st') = currentDynamicPerceptWrappers (fst st)"
proof -
  from assms obtain coords cs' where
    u: "unknownOtherAgents g (snd entry) = Inr coords"
    and l: "agentLoop g st (fst entry) (snd entry) [] coords = Inr (st', cs')"
    by (auto simp: identifyAgent_def bindE_def split: sum.splits prod.splits)
  from agentLoop_as_checks [OF l] u show ?thesis
    by (simp add: uniqueChecks_def)
qed

lemma uniqueChecks_Cons:
  "uniqueChecks g P (entry # rest) = uniqueChecks g P [entry] @ uniqueChecks g P rest"
  by (simp add: uniqueChecks_def)

lemma identifyAll_as_checks:
  "identifyAll g st entries = Inr st' \<Longrightarrow>
   applyChecks g st (uniqueChecks g (currentDynamicPerceptWrappers (fst st)) entries) = Inr st' \<and>
   currentDynamicPerceptWrappers (fst st') = currentDynamicPerceptWrappers (fst st)"
proof (induction entries arbitrary: st)
  case Nil
  then show ?case by (simp add: uniqueChecks_def)
next
  case (Cons entry entries)
  from Cons.prems obtain st1 where
    a: "identifyAgent g st entry = Inr st1"
    and r: "identifyAll g st1 entries = Inr st'"
    by (auto simp: bindE_def split: sum.splits)
  note i = identifyAgent_as_checks [OF a]
  note h = Cons.IH [OF r]
  show ?case
    unfolding uniqueChecks_Cons [of g _ entry entries] applyChecks_append
    using i h by (simp add: bindE_def)
qed

lemma pass_as_checks:
  assumes "checkAgentIdentifications g srv = Inr st'"
  shows "applyChecks g (srv, [], False)
           (uniqueChecks g (currentDynamicPerceptWrappers srv) (currentDynamicPerceptWrappers srv))
         = Inr st'"
  using identifyAll_as_checks [of g "(srv, [], False)" "currentDynamicPerceptWrappers srv" st'] assms
  by (simp add: checkAgentIdentifications_def)

text \<open>
  C2 (as amended). In the identity-resolution pass the check made after each observed
  teammate acts only when the candidate list accumulated so far for the observing agent
  holds exactly one entry: with any other length the check returns the state as it was (no
  merge, no dimension calculation). The list only grows, so once it holds two or more
  entries no later check of that agent's turn changes anything, and an agent for whom the
  list never holds exactly one entry leaves the state untouched. For the whole pass
  \<^verbatim>\<open>checkAgentIdentifications\<close>: its result is the result of performing, in order, the
  merge or dimension calculation of exactly the checks at which the list held one entry;
  when there is no such check the pass returns the server unchanged, no offsets and no
  boundary flag.
\<close>

theorem identification_only_with_unique_candidate:
  "(length canditates \<noteq> 1 \<longrightarrow>
      (\<forall>st'. identifyStep g st agentId dynamicPercept canditates = Inr st' \<longrightarrow> st' = st)) \<and>
   (2 \<le> length canditates \<longrightarrow>
      (\<forall>st' canditates'.
          agentLoop g st agentId dynamicPercept canditates coords = Inr (st', canditates')
          \<longrightarrow> st' = st \<and> 2 \<le> length canditates')) \<and>
   ((\<forall>n. 0 < n \<and> n \<le> length coords \<longrightarrow>
        length (canditates @ accumulated g (currentDynamicPerceptWrappers (fst st)) agentId
                  dynamicPercept (take n coords)) \<noteq> 1) \<longrightarrow>
      (\<forall>st' canditates'.
          agentLoop g st agentId dynamicPercept canditates coords = Inr (st', canditates')
          \<longrightarrow> st' = st)) \<and>
   (\<forall>st'. checkAgentIdentifications g srv = Inr st' \<longrightarrow>
      applyChecks g (srv, [], False)
        (uniqueChecks g (currentDynamicPerceptWrappers srv) (currentDynamicPerceptWrappers srv))
      = Inr st') \<and>
   (uniqueChecks g (currentDynamicPerceptWrappers srv) (currentDynamicPerceptWrappers srv) = [] \<longrightarrow>
      (\<forall>st'. checkAgentIdentifications g srv = Inr st' \<longrightarrow> st' = (srv, [], False)))"
proof (intro conjI)
  show "length canditates \<noteq> 1 \<longrightarrow>
      (\<forall>st'. identifyStep g st agentId dynamicPercept canditates = Inr st' \<longrightarrow> st' = st)"
    using identifyStep_not_unique [of canditates g st agentId dynamicPercept] by blast
  show "2 \<le> length canditates \<longrightarrow>
      (\<forall>st' canditates'.
          agentLoop g st agentId dynamicPercept canditates coords = Inr (st', canditates')
          \<longrightarrow> st' = st \<and> 2 \<le> length canditates')"
    using agentLoop_ambiguous [of canditates g st agentId dynamicPercept coords] by blast
  show "(\<forall>n. 0 < n \<and> n \<le> length coords \<longrightarrow>
        length (canditates @ accumulated g (currentDynamicPerceptWrappers (fst st)) agentId
                  dynamicPercept (take n coords)) \<noteq> 1) \<longrightarrow>
      (\<forall>st' canditates'.
          agentLoop g st agentId dynamicPercept canditates coords = Inr (st', canditates')
          \<longrightarrow> st' = st)"
    using agentLoop_never_unique [of coords canditates g st agentId dynamicPercept] by blast
  show "\<forall>st'. checkAgentIdentifications g srv = Inr st' \<longrightarrow>
      applyChecks g (srv, [], False)
        (uniqueChecks g (currentDynamicPerceptWrappers srv) (currentDynamicPerceptWrappers srv))
      = Inr st'"
    using pass_as_checks [of g srv] by blast
  show "uniqueChecks g (currentDynamicPerceptWrappers srv) (currentDynamicPerceptWrappers srv) = [] \<longrightarrow>
      (\<forall>st'. checkAgentIdentifications g srv = Inr st' \<longrightarrow> st' = (srv, [], False))"
  proof (intro impI allI)
    fix st'
    assume e: "uniqueChecks g (currentDynamicPerceptWrappers srv) (currentDynamicPerceptWrappers srv) = []"
      and c: "checkAgentIdentifications g srv = Inr st'"
    from pass_as_checks [OF c] e show "st' = (srv, [], False)" by simp
  qed
qed

lemma percepts_paired [simp]:
  "currentDynamicPerceptWrappers pairedServer = [(''A'', perceptA), (''B'', perceptB), (''C'', perceptC)]"
  "currentDynamicPerceptWrappers teamServer = [(''A'', perceptA), (''B'', perceptB), (''C'', perceptC)]"
  by (simp_all add: pairedServer_def teamServer_def emptyServer_def)

lemma candidates_south:
  "newCandidates gNone [(''A'', perceptA), (''B'', perceptB), (''C'', perceptC)] ''A'' perceptA (Coordinate 0 1)
     = Inr [(''C'', Coordinate 0 1)]"
  by (simp add: newCandidates_def seesBack_def isCandidate_def
      perceptA_def perceptB_def perceptC_def negate_def lookupE_def bindE_def origo_def gNone_def
      mkCoordinate_def normalize_def wrapCoord_def getShiftedCoordinate_def copy_def mapValueEq_def
      teamAgent_def Let_def)

lemma candidates_east:
  "newCandidates gNone [(''A'', perceptA), (''B'', perceptB), (''C'', perceptC)] ''A'' perceptA (Coordinate 1 0)
     = Inr [(''B'', Coordinate 1 0)]"
  by (simp add: newCandidates_def seesBack_def isCandidate_def
      perceptA_def perceptB_def perceptC_def negate_def lookupE_def bindE_def origo_def gNone_def
      mkCoordinate_def normalize_def wrapCoord_def getShiftedCoordinate_def copy_def mapValueEq_def
      teamAgent_def Let_def)

lemma others_of_A: "unknownOtherAgents gNone perceptA = Inr [Coordinate 1 0, Coordinate 0 1]"
  by (simp add: unknownOtherAgents_def perceptA_def teamAgent_def origo_def gNone_def mkCoordinate_def
      normalize_def wrapCoord_def lookupE_def bindE_def)

lemma merge_A_B:
  "identifyStep gNone (teamServer, [], False) ''A'' perceptA [(''B'', Coordinate 1 0)]
     = Inr (pairedServer, [(''B'', Coordinate 1 0)], False)"
  by (simp add: identifyStep_def applyIdentification_def getMap_def getAgentCoordinate_def
      mergeMaps_def merge_def mergeDispensers_def setUpdate_def
      teamServer_def pairedServer_def emptyServer_def agentMap_def emptyMap_def
      lookupE_def bindE_def copy_def gNone_def mkCoordinate_def normalize_def wrapCoord_def
      getShiftedCoordinate_def Let_def)

text \<open>
  The pass for agent \<open>A\<close> in the three-agent example: \<open>B\<close> is the single candidate when the
  first teammate is checked, so the maps of \<open>A\<close> and \<open>B\<close> are merged; at the second teammate
  the list holds \<open>B\<close> and \<open>C\<close>, and \<open>C\<close> is not merged.
\<close>

lemma pass_for_A:
  "identifyAgent gNone (teamServer, [], False) (''A'', perceptA)
     = Inr (pairedServer, [(''B'', Coordinate 1 0)], False)"
proof -
  have m: "getMap pairedServer ''A'' = Inr ((agentMap 1 ''A'')\<lparr>
                    agentCoordinates := [(''A'', Coordinate 0 0), (''B'', Coordinate 1 0)],
                    agentStartingCoordinates := [(''A'', Coordinate 0 0), (''B'', Coordinate 1 0)]\<rparr>)"
    by (simp add: getMap_def pairedServer_def teamServer_def emptyServer_def lookupE_def bindE_def)
  show ?thesis
    by (simp add: identifyAgent_def others_of_A candidates_east candidates_south merge_A_B
        identifyStep_def [of _ _ _ _ "[(''B'', Coordinate 1 0), (''C'', Coordinate 0 1)]"] m bindE_def)
qed

lemma loop_A:
  "agentLoop gNone (teamServer, [], False) ''A'' perceptA [] [Coordinate 1 0, Coordinate 0 1]
     = Inr ((pairedServer, [(''B'', Coordinate 1 0)], False),
            [(''B'', Coordinate 1 0), (''C'', Coordinate 0 1)])"
proof -
  have m: "getMap pairedServer ''A'' = Inr ((agentMap 1 ''A'')\<lparr>
                    agentCoordinates := [(''A'', Coordinate 0 0), (''B'', Coordinate 1 0)],
                    agentStartingCoordinates := [(''A'', Coordinate 0 0), (''B'', Coordinate 1 0)]\<rparr>)"
    by (simp add: getMap_def pairedServer_def teamServer_def emptyServer_def lookupE_def bindE_def)
  show ?thesis
    by (simp add: candidates_east candidates_south merge_A_B
        identifyStep_def [of _ _ _ _ "[(''B'', Coordinate 1 0), (''C'', Coordinate 0 1)]"] m bindE_def)
qed

lemma others_of_B: "unknownOtherAgents gNone perceptB = Inr [Coordinate (- 1) 0]"
  by (simp add: unknownOtherAgents_def perceptB_def teamAgent_def origo_def gNone_def mkCoordinate_def
      normalize_def wrapCoord_def lookupE_def bindE_def)

lemma others_of_C: "unknownOtherAgents gNone perceptC = Inr [Coordinate 0 (- 1)]"
  by (simp add: unknownOtherAgents_def perceptC_def teamAgent_def origo_def gNone_def mkCoordinate_def
      normalize_def wrapCoord_def lookupE_def bindE_def)

lemma candidates_of_B:
  "newCandidates gNone [(''A'', perceptA), (''B'', perceptB), (''C'', perceptC)] ''B'' perceptB (Coordinate (- 1) 0)
     = Inr [(''A'', Coordinate (- 1) 0)]"
  by (simp add: newCandidates_def seesBack_def isCandidate_def
      perceptA_def perceptB_def perceptC_def negate_def lookupE_def bindE_def origo_def gNone_def
      mkCoordinate_def normalize_def wrapCoord_def getShiftedCoordinate_def copy_def mapValueEq_def
      teamAgent_def Let_def)

lemma candidates_of_C:
  "newCandidates gNone [(''A'', perceptA), (''B'', perceptB), (''C'', perceptC)] ''C'' perceptC (Coordinate 0 (- 1))
     = Inr [(''A'', Coordinate 0 (- 1))]"
  by (simp add: newCandidates_def seesBack_def isCandidate_def
      perceptA_def perceptB_def perceptC_def negate_def lookupE_def bindE_def origo_def gNone_def
      mkCoordinate_def normalize_def wrapCoord_def getShiftedCoordinate_def copy_def mapValueEq_def
      teamAgent_def Let_def)

lemma step_B:
  "identifyStep gNone (pairedServer, [(''B'', Coordinate 1 0)], False) ''B'' perceptB [(''A'', Coordinate (- 1) 0)]
     = Inr (pairedServer, [(''B'', Coordinate 1 0)], False)"
  by (simp add: identifyStep_def applyIdentification_def getMap_def getAgentCoordinate_def
      teamServer_def pairedServer_def emptyServer_def agentMap_def emptyMap_def
      lookupE_def bindE_def copy_def gNone_def mkCoordinate_def normalize_def wrapCoord_def
      getShiftedCoordinate_def Let_def)

lemma step_C:
  "identifyStep gNone (pairedServer, [(''B'', Coordinate 1 0)], False) ''C'' perceptC [(''A'', Coordinate 0 (- 1))]
     = Inr (mergedServer, [(''B'', Coordinate 0 (- 1)), (''A'', Coordinate 0 (- 1))], False)"
  by (simp add: identifyStep_def applyIdentification_def getMap_def getAgentCoordinate_def
      mergeMaps_def merge_def mergeDispensers_def setUpdate_def mergedServer_def
      teamServer_def pairedServer_def emptyServer_def agentMap_def emptyMap_def
      lookupE_def bindE_def copy_def gNone_def mkCoordinate_def normalize_def wrapCoord_def
      getShiftedCoordinate_def Let_def)

lemma percepts_merged [simp]:
  "currentDynamicPerceptWrappers mergedServer = [(''A'', perceptA), (''B'', perceptB), (''C'', perceptC)]"
  by (simp add: mergedServer_def teamServer_def emptyServer_def)

lemma pass_team:
  "checkAgentIdentifications gNone teamServer
     = Inr (mergedServer, [(''B'', Coordinate 0 (- 1)), (''A'', Coordinate 0 (- 1))], False)"
proof -
  have b: "identifyAgent gNone (pairedServer, [(''B'', Coordinate 1 0)], False) (''B'', perceptB)
             = Inr (pairedServer, [(''B'', Coordinate 1 0)], False)"
    by (simp add: identifyAgent_def others_of_B candidates_of_B step_B bindE_def)
  have c: "identifyAgent gNone (pairedServer, [(''B'', Coordinate 1 0)], False) (''C'', perceptC)
             = Inr (mergedServer, [(''B'', Coordinate 0 (- 1)), (''A'', Coordinate 0 (- 1))], False)"
    by (simp add: identifyAgent_def others_of_C candidates_of_C step_C bindE_def)
  show ?thesis
    by (simp add: checkAgentIdentifications_def pass_for_A b c bindE_def)
qed

lemma checks_team:
  "uniqueChecks gNone [(''A'', perceptA), (''B'', perceptB), (''C'', perceptC)]
       [(''A'', perceptA), (''B'', perceptB), (''C'', perceptC)]
     = [(''A'', perceptA, (''B'', Coordinate 1 0)), (''B'', perceptB, (''A'', Coordinate (- 1) 0)),
        (''C'', perceptC, (''A'', Coordinate 0 (- 1)))]"
  by (simp add: uniqueChecks_def others_of_A others_of_B others_of_C candidates_east candidates_south
      candidates_of_B candidates_of_C)

theorem identification_only_with_unique_candidate_witness:
  "length ([(''B'', Coordinate 1 0)] @
       accumulated gNone (currentDynamicPerceptWrappers pairedServer) ''A'' perceptA [Coordinate 0 1]) = 2 \<and>
   agentLoop gNone (pairedServer, [(''B'', Coordinate 1 0)], False) ''A'' perceptA
       [(''B'', Coordinate 1 0)] [Coordinate 0 1]
     = Inr ((pairedServer, [(''B'', Coordinate 1 0)], False),
            [(''B'', Coordinate 1 0), (''C'', Coordinate 0 1)]) \<and>
   checkAgentIdentifications gNone teamServer
     = Inr (mergedServer, [(''B'', Coordinate 0 (- 1)), (''A'', Coordinate 0 (- 1))], False) \<and>
   uniqueChecks gNone (currentDynamicPerceptWrappers teamServer) (currentDynamicPerceptWrappers teamServer)
     = [(''A'', perceptA, (''B'', Coordinate 1 0)), (''B'', perceptB, (''A'', Coordinate (- 1) 0)),
        (''C'', perceptC, (''A'', Coordinate 0 (- 1)))] \<and>
   applyChecks gNone (teamServer, [], False)
     [(''A'', perceptA, (''B'', Coordinate 1 0)), (''B'', perceptB, (''A'', Coordinate (- 1) 0)),
      (''C'', perceptC, (''A'', Coordinate 0 (- 1)))]
     = Inr (mergedServer, [(''B'', Coordinate 0 (- 1)), (''A'', Coordinate 0 (- 1))], False)"
proof -
  have m: "\<exists>cm. getMap pairedServer ''A'' = Inr cm"
    by (simp add: getMap_def pairedServer_def teamServer_def emptyServer_def lookupE_def bindE_def)
  have e: "agentLoop gNone (pairedServer, [(''B'', Coordinate 1 0)], False) ''A'' perceptA
       [(''B'', Coordinate 1 0)] [Coordinate 0 1]
     = Inr ((pairedServer, [(''B'', Coordinate 1 0)], False),
            [(''B'', Coordinate 1 0), (''C'', Coordinate 0 1)])"
    using m by (auto simp: candidates_south identifyStep_def bindE_def)
  have a: "length ([(''B'', Coordinate 1 0)] @
       accumulated gNone (currentDynamicPerceptWrappers pairedServer) ''A'' perceptA [Coordinate 0 1]) = 2"
    by (simp add: candidates_south)
  have n: "\<forall>n. 0 < n \<and> n \<le> length [Coordinate 0 1] \<longrightarrow>
        length ([(''B'', Coordinate 1 0)] @
          accumulated gNone (currentDynamicPerceptWrappers (fst (pairedServer, [(''B'', Coordinate 1 0)], False)))
            ''A'' perceptA (take n [Coordinate 0 1])) \<noteq> 1"
    by (auto simp: candidates_south)
  note t = identification_only_with_unique_candidate [of "[(''B'', Coordinate 1 0)]" gNone
      "(pairedServer, [(''B'', Coordinate 1 0)], False)" "''A''" perceptA "[Coordinate 0 1]" teamServer]
  have u: "\<forall>st' canditates'.
      agentLoop gNone (pairedServer, [(''B'', Coordinate 1 0)], False) ''A'' perceptA
        [(''B'', Coordinate 1 0)] [Coordinate 0 1] = Inr (st', canditates')
      \<longrightarrow> st' = (pairedServer, [(''B'', Coordinate 1 0)], False)"
    using t [THEN conjunct2, THEN conjunct2, THEN conjunct1] n by blast
  have p: "applyChecks gNone (teamServer, [], False)
        (uniqueChecks gNone (currentDynamicPerceptWrappers teamServer)
           (currentDynamicPerceptWrappers teamServer))
      = Inr (mergedServer, [(''B'', Coordinate 0 (- 1)), (''A'', Coordinate 0 (- 1))], False)"
    using t [THEN conjunct2, THEN conjunct2, THEN conjunct2, THEN conjunct1] pass_team by blast
  show ?thesis using u e a p pass_team by (simp add: checks_team)
qed

text \<open>
  The claim as stated fails for an agent whose list ends with two entries. In the
  three-agent example the turn of \<open>A\<close> ends with the candidates \<open>B\<close> and \<open>C\<close>, yet the map
  of \<open>B\<close> was merged into the map of \<open>A\<close> during that turn, at the check at which \<open>B\<close> was
  the only entry; and later in the same pass the turn of \<open>C\<close> merges the map of \<open>A\<close> into
  the map of \<open>C\<close>.
\<close>

theorem identification_with_two_candidates_counterexample:
  "agentLoop gNone (teamServer, [], False) ''A'' perceptA [] [Coordinate 1 0, Coordinate 0 1]
     = Inr ((pairedServer, [(''B'', Coordinate 1 0)], False),
            [(''B'', Coordinate 1 0), (''C'', Coordinate 0 1)]) \<and>
   map_of (aliasis teamServer) ''B'' = Some 2 \<and>
   map_of (aliasis pairedServer) ''B'' = Some 1 \<and>
   checkAgentIdentifications gNone teamServer
     = Inr (mergedServer, [(''B'', Coordinate 0 (- 1)), (''A'', Coordinate 0 (- 1))], False) \<and>
   map_of (aliasis teamServer) ''A'' = Some 1 \<and>
   map_of (aliasis mergedServer) ''A'' = Some 3"
proof -
  have al: "map_of (aliasis teamServer) ''B'' = Some 2" "map_of (aliasis pairedServer) ''B'' = Some 1"
    "map_of (aliasis teamServer) ''A'' = Some 1" "map_of (aliasis mergedServer) ''A'' = Some 3"
    by (simp_all add: teamServer_def pairedServer_def mergedServer_def emptyServer_def)
  show ?thesis
    using al loop_A pass_team by blast
qed



end
